theory Spec2Isabelle
  imports Complex_Main "HOL-Library.Word" "HOL-Library.Monad_Syntax"
begin

chapter \<open>The Solace cluster-manager provider: fake server and provider configuration\<close>

section \<open>Time\<close>

text \<open>
  A Go \<open>time.Time\<close> is modelled as the number of nanoseconds since the zero time
  (so the zero value of a \<open>time.Time\<close> field is \<open>0\<close>), a \<open>time.Duration\<close> as a number of
  nanoseconds. \<open>Time.Sub\<close> saturates at the limits of the 64-bit duration.
\<close>

type_synonym time = int
type_synonym duration = int

definition maxDuration :: duration where
  "maxDuration = 2 ^ 63 - 1"

definition minDuration :: duration where
  "minDuration = - (2 ^ 63)"

definition Sub :: "time \<Rightarrow> time \<Rightarrow> duration" where
  "Sub t u =
     (let d = t - u
      in if maxDuration < d then maxDuration
         else if d < minDuration then minDuration
         else d)"

text \<open>
  \<open>time.Since(t)\<close> is \<open>time.Now().Sub(t)\<close>; the clock value it reads is the first
  argument.
\<close>

definition Since :: "time \<Rightarrow> time \<Rightarrow> duration" where
  "Since clock t = Sub clock t"

text \<open>
  \<open>Duration.Seconds()\<close> is the duration in seconds. The source compares it with the
  constant \<open>5.0\<close> only; the rational value below and the 64-bit float of the source are on
  the same side of 5 for every duration (5 is a float, and the float of five seconds plus
  one nanosecond is above it).
\<close>

definition Seconds :: "duration \<Rightarrow> rat" where
  "Seconds d = of_int d / 1000000000"

section \<open>Values of type \<open>interface{}\<close>\<close>

text \<open>
  The finite values of a \<open>float64\<close>: the numbers \<open>m * 2 ^ e\<close> with \<open>\<bar>m\<bar> < 2 ^ 53\<close> and
  \<open>-1074 \<le> e \<le> 971\<close> (below, \<open>e = k - 1074\<close>).
\<close>

typedef float64 =
  "{x :: rat. \<exists>(m :: int) (k :: nat). \<bar>m\<bar> < 2 ^ 53 \<and> k \<le> 2045 \<and> x = of_int m * 2 ^ k / 2 ^ 1074}"
  by (rule exI [of _ 0]) (auto intro: exI [of _ 0])

text \<open>
  What \<open>encoding/json\<close> decodes a JSON text to: \<open>nil\<close>, \<open>bool\<close>, \<open>float64\<close>,
  \<open>string\<close>, \<open>[]interface{}\<close> and \<open>map[string]interface{}\<close> (here the members in the
  order of the text). A JSON number is decoded to a finite \<open>float64\<close>; a number that has
  none (one that \<open>strconv.ParseFloat\<close> reports as out of range, such as \<open>1e400\<close>) makes the
  decoder return an error, and no value of this type stands for a text that holds one.
\<close>

datatype json =
    JNull
  | JBool bool
  | JNumber float64
  | JString string
  | JArray "json list"
  | JObject "(string \<times> json) list"

type_synonym int32 = "32 word"

text \<open>
  The values the handlers put into the \<open>result\<close> they marshal: strings, \<open>int32\<close>, slices
  and maps. \<open>GTime t\<close> stands for the string \<open>t.Format(time.RFC3339)\<close>.
\<close>

datatype gval =
    GString string
  | GInt32 int32
  | GTime time
  | GSlice "gval list"
  | GMap "(string \<times> gval) list"

section \<open>The fake server\<close>

record ServiceInfo =
  ID :: string
  ServiceClassId :: string
  DatacenterId :: string
  Name :: string
  State :: string
  MsgVpnName :: string
  EventBrokerVersion :: string
  CustomRouterName :: string
  ClusterName :: string
  MaxSpoolUsage :: int32
  Created :: time
  Updated :: time
  ClientUsername :: string
  ClientPassword :: string

text \<open>The \<open>server\<close> field (the \<open>http.Server\<close>) plays no part in the handlers.\<close>

record Fakeserver =
  objects :: "string \<rightharpoonup> ServiceInfo"
  debug :: bool
  running :: bool

text \<open>
  What one call of the handler reads from outside the server: the value of
  \<open>uuid.New().String()\<close>, the value of \<open>time.Now()\<close>, and the clock value read by
  \<open>time.Since\<close> (a second reading of the clock, in \<open>handleGet\<close>).
\<close>

record world =
  newUUID :: string
  now :: time
  sinceClock :: time

text \<open>
  A request: its method, \<open>r.URL.EscapedPath()\<close>, and its body, read in full. The body is
  given by what \<open>encoding/json\<close> makes of the bytes: \<open>None\<close> when they are not a JSON text
  or hold a number outside the range of \<open>float64\<close>, \<open>Some v\<close> when they are the text of
  the value \<open>v\<close>, each number being the \<open>float64\<close> it is decoded to.
\<close>

record request =
  Method :: string
  Path :: string
  Body :: "json option"

text \<open>
  What the client gets: a JSON reply (header \<open>Content-Type: json\<close>, the status, and the
  marshalled \<open>result\<close>), a reply of \<open>http.Error\<close> (the status and its text), or no reply at
  all when the handler panics (\<open>net/http\<close> recovers the panic and aborts the connection).
\<close>

datatype response =
    JsonReply nat gval
  | ErrorReply nat string
  | Panicked

subsection \<open>Decoding\<close>

text \<open>\<open>strings.Split(path, "/")\<close>.\<close>

fun strings_Split :: "string \<Rightarrow> string list" where
  "strings_Split [] = [[]]"
| "strings_Split (c # cs) =
     (if c = CHR ''/'' then [] # strings_Split cs
      else (case strings_Split cs of
              [] \<Rightarrow> [[c]]
            | p # ps \<Rightarrow> (c # p) # ps))"

definition parseRequest :: "request \<Rightarrow> json option \<times> string list" where
  "parseRequest r = (Body r, strings_Split (Path r))"

text \<open>
  The decoder counts the arrays and objects that are open at a time and refuses a text in
  which more than \<open>maxNestingDepth\<close> are.
\<close>

fun depth :: "json \<Rightarrow> nat" where
  "depth (JArray vs) = Suc (fold max (map depth vs) 0)"
| "depth (JObject kvs) = Suc (fold max (map (\<lambda>kv. depth (snd kv)) kvs) 0)"
| "depth v = 0"

definition maxNestingDepth :: nat where
  "maxNestingDepth = 10000"

text \<open>
  \<open>json.Unmarshal(body, &jObj)\<close> with \<open>jObj\<close> a \<open>map[string]interface{}\<close>: an error
  (\<open>None\<close>) when the body is not a JSON text, holds a number outside the range of
  \<open>float64\<close>, is nested deeper than the limit, or is a JSON value other than an object or
  \<open>null\<close>; \<open>null\<close> leaves the map \<open>nil\<close>; of a repeated member the last one stays.
\<close>

definition Unmarshal :: "json option \<Rightarrow> (string \<rightharpoonup> json) option" where
  "Unmarshal body =
     (case body of
        None \<Rightarrow> None
      | Some v \<Rightarrow>
          if maxNestingDepth < depth v then None
          else (case v of
                  JNull \<Rightarrow> Some Map.empty
                | JObject kvs \<Rightarrow> Some (map_of (rev kvs))
                | _ \<Rightarrow> None))"

text \<open>\<open>jObj[k]\<close>: \<open>nil\<close> for a missing key.\<close>

definition index :: "(string \<rightharpoonup> json) \<Rightarrow> string \<Rightarrow> json" where
  "index jObj k = (case jObj k of None \<Rightarrow> JNull | Some v \<Rightarrow> v)"

text \<open>The type assertions \<open>s.(string)\<close> and \<open>s.(float64)\<close>; \<open>None\<close> is the panic.\<close>

definition assertString :: "json \<Rightarrow> string option" where
  "assertString s = (case s of JString x \<Rightarrow> Some x | _ \<Rightarrow> None)"

definition assertFloat64 :: "json \<Rightarrow> float64 option" where
  "assertFloat64 s = (case s of JNumber x \<Rightarrow> Some x | _ \<Rightarrow> None)"

text \<open>
  The conversion \<open>int32(f)\<close> discards the fraction. For a value outside the range of
  \<open>int32\<close> Go leaves the result to the implementation; the model gives the result of the
  amd64 instruction, the least \<open>int32\<close>.
\<close>

definition truncate :: "rat \<Rightarrow> int" where
  "truncate f = (if 0 \<le> f then \<lfloor>f\<rfloor> else \<lceil>f\<rceil>)"

definition int32_of_float64 :: "float64 \<Rightarrow> int32" where
  "int32_of_float64 f =
     (let i = truncate (Rep_float64 f)
      in if - (2 ^ 31) \<le> i \<and> i < 2 ^ 31 then word_of_int i else word_of_int (- (2 ^ 31)))"

definition orDefault :: "json \<Rightarrow> string \<Rightarrow> string option" where
  "orDefault s ds =
     (if s \<noteq> JNull then
        (case assertString s of
           None \<Rightarrow> None
         | Some x \<Rightarrow> if x \<noteq> [] then Some x else Some ds)
      else Some ds)"

definition orDefaultInt32 :: "json \<Rightarrow> int32 \<Rightarrow> int32 option" where
  "orDefaultInt32 s ds =
     (if s \<noteq> JNull then
        (case assertFloat64 s of
           None \<Rightarrow> None
         | Some f \<Rightarrow> Some (int32_of_float64 f))
      else Some ds)"

subsection \<open>The handlers\<close>

text \<open>
  Each handler takes the server and returns the reply with the server afterwards. The
  \<open>result\<close> maps hold strings, numbers, maps and slices only, so \<open>json.Marshal\<close> does not
  fail on them. Logging is left out.
\<close>

definition StatusInternalServerError :: "nat \<times> string" where
  "StatusInternalServerError = (500, ''Internal Server Error'')"

definition StatusNotFound :: "nat \<times> string" where
  "StatusNotFound = (404, ''Not Found'')"

definition StatusBadRequest :: "nat \<times> string" where
  "StatusBadRequest = (400, ''Bad Request'')"

definition http_Error :: "nat \<times> string \<Rightarrow> response" where
  "http_Error st = ErrorReply (fst st) (snd st)"

definition meta :: "string \<times> gval" where
  "meta = (''meta'', GMap [(''additionalProp'', GMap [])])"

definition handleCreate :: "Fakeserver \<Rightarrow> world \<Rightarrow> json option \<Rightarrow> response \<times> Fakeserver" where
  "handleCreate svr w body =
     (let sid = newUUID w
      in case Unmarshal body of
           None \<Rightarrow> (http_Error StatusInternalServerError, svr)
         | Some jObj \<Rightarrow>
             (case do {
                     name \<leftarrow> assertString (index jObj ''name'');
                     serviceClassId \<leftarrow> assertString (index jObj ''serviceClassId'');
                     datacenterId \<leftarrow> assertString (index jObj ''datacenterId'');
                     clusterName \<leftarrow> orDefault (index jObj ''clusterName'') ''test-cluster1'';
                     msgVpnName \<leftarrow> orDefault (index jObj ''msgVpnName'') ''test-vpn1'';
                     eventBrokerVersion \<leftarrow> orDefault (index jObj ''eventBrokerVersion'') ''1.0.0'';
                     customRouterName \<leftarrow> orDefault (index jObj ''customRouterName'') ''test-router1'';
                     maxSpoolUsage \<leftarrow> orDefaultInt32 (index jObj ''maxSpoolUsage'') 20;
                     Some \<lparr>ID = sid,
                           ServiceClassId = serviceClassId,
                           DatacenterId = datacenterId,
                           Name = name,
                           State = ''PENDING'',
                           MsgVpnName = msgVpnName,
                           EventBrokerVersion = eventBrokerVersion,
                           CustomRouterName = customRouterName,
                           ClusterName = clusterName,
                           MaxSpoolUsage = maxSpoolUsage,
                           Created = now w,
                           Updated = 0,
                           ClientUsername = ''client-user'',
                           ClientPassword = ''client-passwd''\<rparr>
                   } of
                None \<Rightarrow> (Panicked, svr)
              | Some sInfo \<Rightarrow>
                  (JsonReply 202
                     (GMap [(''data'', GMap [(''id'', GString (''O'' @ ID sInfo)),
                                            (''resourceId'', GString (ID sInfo)),
                                            (''name'', GString (Name sInfo)),
                                            (''createdTime'', GTime (Created sInfo)),
                                            (''creationState'', GString (State sInfo))]),
                            meta]),
                   svr\<lparr>objects := (objects svr)(sid \<mapsto> sInfo)\<rparr>)))"

definition handleGet :: "Fakeserver \<Rightarrow> world \<Rightarrow> ServiceInfo \<Rightarrow> string \<Rightarrow> response \<times> Fakeserver" where
  "handleGet svr w sInfo0 ident =
     (let (sInfo, svr') =
            (if State sInfo0 = ''PENDING'' then
               (let s1 = sInfo0\<lparr>Updated := now w\<rparr>;
                    s2 = (if 5 < Seconds (Since (sinceClock w) (Created s1))
                          then s1\<lparr>State := ''COMPLETED''\<rparr> else s1)
                in (s2, svr\<lparr>objects := (objects svr)(ident \<mapsto> s2)\<rparr>))
             else (sInfo0, svr))
      in (JsonReply 200
            (GMap [(''data'',
                    GMap [(''id'', GString (ID sInfo)),
                          (''name'', GString (Name sInfo)),
                          (''serviceClassId'', GString (ServiceClassId sInfo)),
                          (''datacenterId'', GString (DatacenterId sInfo)),
                          (''createdTime'', GTime (Created sInfo)),
                          (''updatedTime'', GTime (Updated sInfo)),
                          (''creationState'', GString (State sInfo)),
                          (''eventBrokerServiceVersion'', GString (EventBrokerVersion sInfo)),
                          (''broker'',
                           GMap [(''cluster'',
                                  GMap [(''name'', GString (ClusterName sInfo)),
                                        (''primaryRouterName'', GString (CustomRouterName sInfo))]),
                                 (''msgVpns'',
                                  GSlice [GMap [(''msgVpnName'', GString (MsgVpnName sInfo)),
                                                (''serviceLoginCredential'',
                                                 GMap [(''username'', GString (ClientUsername sInfo)),
                                                       (''password'', GString (ClientPassword sInfo))])]]),
                                 (''maxSpoolUsage'', GInt32 (MaxSpoolUsage sInfo))])]),
                   meta]),
          svr'))"

definition handlePatch ::
  "Fakeserver \<Rightarrow> world \<Rightarrow> ServiceInfo \<Rightarrow> string \<Rightarrow> json option \<Rightarrow> response \<times> Fakeserver" where
  "handlePatch svr w sInfo0 ident body =
     (case Unmarshal body of
        None \<Rightarrow> (http_Error StatusInternalServerError, svr)
      | Some jObj \<Rightarrow>
          (case assertString (index jObj ''name'') of
             None \<Rightarrow> (Panicked, svr)
           | Some name \<Rightarrow>
               (let sInfo = sInfo0\<lparr>Name := name, State := ''PENDING'', Updated := now w\<rparr>
                in (JsonReply 200
                      (GMap [(''data'',
                              GMap [(''id'', GString (ID sInfo)),
                                    (''serviceClassId'', GString (ServiceClassId sInfo)),
                                    (''name'', GString (Name sInfo)),
                                    (''createdTime'', GTime (Created sInfo)),
                                    (''updatedTime'', GTime (Updated sInfo)),
                                    (''creationState'', GString (State sInfo)),
                                    (''eventBrokerServiceVersion'',
                                     GString (EventBrokerVersion sInfo)),
                                    (''broker'',
                                     GMap [(''cluster'',
                                            GMap [(''name'', GString (ClusterName sInfo)),
                                                  (''primaryRouterName'',
                                                   GString (CustomRouterName sInfo))]),
                                           (''msgVpns'',
                                            GSlice [GMap [(''msgVpnName'',
                                                           GString (MsgVpnName sInfo))]]),
                                           (''maxSpoolUsage'', GInt32 (MaxSpoolUsage sInfo))])]),
                             meta]),
                    svr\<lparr>objects := (objects svr)(ident \<mapsto> sInfo)\<rparr>))))"

definition handleDelete :: "Fakeserver \<Rightarrow> ServiceInfo \<Rightarrow> string \<Rightarrow> response \<times> Fakeserver" where
  "handleDelete svr sInfo ident =
     (JsonReply 202
        (GMap [(''data'', GMap [(''id'', GString (''O'' @ ID sInfo)),
                               (''resourceId'', GString (ID sInfo)),
                               (''name'', GString (Name sInfo)),
                               (''createdTime'', GTime (Created sInfo)),
                               (''status'', GString ''PENDING'')]),
               meta]),
      svr\<lparr>objects := (objects svr)(ident := None)\<rparr>)"

definition handleBrokerServices :: "Fakeserver \<Rightarrow> world \<Rightarrow> request \<Rightarrow> response \<times> Fakeserver" where
  "handleBrokerServices svr w r =
     (let (body, parts) = parseRequest r
      in if (length parts = 5 \<or> (length parts = 6 \<and> parts ! 5 = [])) \<and> Method r = ''POST''
         then handleCreate svr w body
         else if length parts = 6 then
           (let ident = parts ! 5
            in case objects svr ident of
                 None \<Rightarrow> (http_Error StatusNotFound, svr)
               | Some sInfo \<Rightarrow>
                   if Method r = ''GET'' then handleGet svr w sInfo ident
                   else if Method r = ''PATCH'' then handlePatch svr w sInfo ident body
                   else if Method r = ''DELETE'' then handleDelete svr sInfo ident
                   else (http_Error StatusBadRequest, svr))
         else (http_Error StatusBadRequest, svr))"

text \<open>The server takes the requests one after the other.\<close>

fun serve :: "Fakeserver \<Rightarrow> (world \<times> request) list \<Rightarrow> response list \<times> Fakeserver" where
  "serve svr [] = ([], svr)"
| "serve svr ((w, r) # rest) =
     (let (resp, svr') = handleBrokerServices svr w r;
          (resps, svr'') = serve svr' rest
      in (resp # resps, svr''))"

subsection \<open>Reading requests and replies\<close>

text \<open>A request addresses \<open>ident\<close> when its path has six parts, the last one \<open>ident\<close>.\<close>

definition addresses :: "request \<Rightarrow> string \<Rightarrow> bool" where
  "addresses r ident =
     (let parts = strings_Split (Path r) in length parts = 6 \<and> parts ! 5 = ident)"

text \<open>A create request: \<open>POST\<close> on a path of five parts, or of six with the last one empty.\<close>

definition isCreate :: "request \<Rightarrow> bool" where
  "isCreate r =
     (let parts = strings_Split (Path r)
      in (length parts = 5 \<or> (length parts = 6 \<and> parts ! 5 = [])) \<and> Method r = ''POST'')"


fun field :: "string \<Rightarrow> gval \<Rightarrow> gval option" where
  "field k (GMap kvs) = map_of kvs k"
| "field k _ = None"

fun element :: "nat \<Rightarrow> gval \<Rightarrow> gval option" where
  "element i (GSlice vs) = (if i < length vs then Some (vs ! i) else None)"
| "element i _ = None"

definition statusCode :: "response \<Rightarrow> nat option" where
  "statusCode resp =
     (case resp of
        JsonReply st v \<Rightarrow> Some st
      | ErrorReply st t \<Rightarrow> Some st
      | Panicked \<Rightarrow> None)"

definition replyData :: "response \<Rightarrow> gval option" where
  "replyData resp = (case resp of JsonReply st v \<Rightarrow> field ''data'' v | _ \<Rightarrow> None)"

definition creationState :: "response \<Rightarrow> gval option" where
  "creationState resp = replyData resp \<bind> field ''creationState''"

definition serviceLoginCredential :: "response \<Rightarrow> gval option" where
  "serviceLoginCredential resp =
     replyData resp \<bind> field ''broker'' \<bind> field ''msgVpns'' \<bind> element 0
       \<bind> field ''serviceLoginCredential''"

text \<open>
  The bodies that \<open>handleCreate\<close> takes without a panic: the three required members are
  strings, the optional string members are strings, \<open>null\<close> or missing, and
  \<open>maxSpoolUsage\<close> is a number, \<open>null\<close> or missing.
\<close>

definition isString :: "json \<Rightarrow> bool" where
  "isString v = (case v of JString x \<Rightarrow> True | _ \<Rightarrow> False)"

definition nilOrString :: "json \<Rightarrow> bool" where
  "nilOrString v = (case v of JNull \<Rightarrow> True | JString x \<Rightarrow> True | _ \<Rightarrow> False)"

definition nilOrNumber :: "json \<Rightarrow> bool" where
  "nilOrNumber v = (case v of JNull \<Rightarrow> True | JNumber x \<Rightarrow> True | _ \<Rightarrow> False)"

definition wellTyped :: "(string \<rightharpoonup> json) \<Rightarrow> bool" where
  "wellTyped jObj =
     (isString (index jObj ''name'')
      \<and> isString (index jObj ''serviceClassId'')
      \<and> isString (index jObj ''datacenterId'')
      \<and> nilOrString (index jObj ''clusterName'')
      \<and> nilOrString (index jObj ''msgVpnName'')
      \<and> nilOrString (index jObj ''eventBrokerVersion'')
      \<and> nilOrString (index jObj ''customRouterName'')
      \<and> nilOrNumber (index jObj ''maxSpoolUsage''))"

section \<open>The provider configuration\<close>

text \<open>A \<open>types.String\<close> of the plugin framework is null, unknown or a known string.\<close>

datatype tfString = StringNull | StringUnknown | StringValue string

definition IsNull :: "tfString \<Rightarrow> bool" where
  "IsNull v = (v = StringNull)"

definition IsUnknown :: "tfString \<Rightarrow> bool" where
  "IsUnknown v = (v = StringUnknown)"

definition ValueString :: "tfString \<Rightarrow> string" where
  "ValueString v = (case v of StringValue x \<Rightarrow> x | _ \<Rightarrow> [])"

record clusterManagerProviderModel =
  Host :: tfString
  BearerToken :: tfString
  PollingTimeoutDuration :: tfString
  PollingIntervalDuration :: tfString

text \<open>
  The provider data; its fields carry the suffix \<open>_data\<close>, the names without it being
  those of the configuration above.
\<close>

record 'c CMProviderData =
  Client_data :: 'c
  BearerToken_data :: string
  PollingIntervalDuration_data :: duration
  PollingTimeoutDuration_data :: duration

text \<open>A diagnostic: an error on an attribute (path and summary), an error, or a warning.\<close>

datatype diagnostic =
    AttributeError string string
  | Error string
  | Warning string

fun isError :: "diagnostic \<Rightarrow> bool" where
  "isError (Warning s) = False"
| "isError d = True"

definition HasError :: "diagnostic list \<Rightarrow> bool" where
  "HasError ds = list_ex isError ds"

text \<open>\<open>os.Getenv\<close>: the empty string for a variable that is not set.\<close>

definition Getenv :: "(string \<rightharpoonup> string) \<Rightarrow> string \<Rightarrow> string" where
  "Getenv env k = (case env k of None \<Rightarrow> [] | Some v \<Rightarrow> v)"

text \<open>
  \<open>Configure\<close>. The library functions \<open>time.ParseDuration\<close> and
  \<open>missioncontrol.NewClientWithResponses\<close> are parameters (\<open>None\<close> is their error; the
  duration returned with an error is 0), as
  are the environment and what \<open>req.Config.Get\<close> returns: its diagnostics and the
  configuration. The result is the diagnostics of the response with the provider data, if
  any was set.
\<close>

definition Configure ::
  "(string \<Rightarrow> duration option) \<Rightarrow> (string \<Rightarrow> 'c option) \<Rightarrow> (string \<rightharpoonup> string) \<Rightarrow>
   diagnostic list \<Rightarrow> clusterManagerProviderModel \<Rightarrow> diagnostic list \<times> 'c CMProviderData option" where
  "Configure ParseDuration NewClientWithResponses env diags config =
     (if HasError diags then (diags, None)
      else
        let diags1 = diags
              @ (if IsUnknown (Host config)
                 then [AttributeError ''host'' ''Unknown HashiCups API Host''] else [])
              @ (if IsUnknown (BearerToken config)
                 then [AttributeError ''password'' ''Unknown MissionControl API Token''] else [])
        in if HasError diags1 then (diags1, None)
           else
             let host0 = Getenv env ''MISSIONCONTROL_HOST'';
                 bearerToken0 = Getenv env ''MISSIONCONTROL_TOKEN'';
                 pollingIntervalDurationStr0 = Getenv env ''POLLING_INTERVAL_DURATION'';
                 pollingTimeoutDurationStr0 = Getenv env ''POLLING_TIMEOUT_DURATION'';
                 host = (if \<not> IsNull (Host config)
                         then ValueString (Host config) else host0);
                 bearerToken = (if \<not> IsNull (BearerToken config)
                                then ValueString (BearerToken config) else bearerToken0);
                 pollingIntervalDurationStr1 =
                   (if \<not> IsNull (PollingIntervalDuration config)
                    then ValueString (PollingIntervalDuration config)
                    else pollingIntervalDurationStr0);
                 pollingTimeoutDurationStr1 =
                   (if \<not> IsNull (PollingTimeoutDuration config)
                    then ValueString (PollingTimeoutDuration config)
                    else pollingTimeoutDurationStr0);
                 pollingIntervalDurationStr =
                   (if pollingIntervalDurationStr1 = [] then ''20s''
                    else pollingIntervalDurationStr1);
                 pollingTimeoutDurationStr =
                   (if pollingTimeoutDurationStr1 = [] then ''30m''
                    else pollingTimeoutDurationStr1);
                 diags2 = diags1
                   @ (if host = []
                      then [AttributeError ''host'' ''Missing MissionControl API Host''] else [])
                   @ (if bearerToken = []
                      then [AttributeError ''bearerToken''
                              ''Missing MissionControl API PasTokensword'']
                      else [])
                   @ (if ParseDuration pollingIntervalDurationStr = None
                      then [AttributeError ''polling_intervall_duration''
                              ''Invalid polling intervall duration'']
                      else [])
                   @ (if ParseDuration pollingTimeoutDurationStr = None
                      then [AttributeError ''polling_timeout_duration''
                              ''Invalid polling timeout duration'']
                      else [])
             in if HasError diags2 then (diags2, None)
                else
                  (case NewClientWithResponses host of
                     None \<Rightarrow>
                       (diags2 @ [Error ''Unable to Create MissionControl API Client''], None)
                   | Some client \<Rightarrow>
                       (diags2,
                        Some \<lparr>Client_data = client,
                              BearerToken_data = bearerToken,
                              PollingIntervalDuration_data =
                                (case ParseDuration pollingIntervalDurationStr of
                                   None \<Rightarrow> 0 | Some d \<Rightarrow> d),
                              PollingTimeoutDuration_data =
                                (case ParseDuration pollingTimeoutDurationStr of
                                   None \<Rightarrow> 0 | Some d \<Rightarrow> d)\<rparr>)))"

text \<open>
  The polling strings as the configuration surface describes them: the value of the
  configuration when it is not null, the environment variable otherwise, and the default
  when that is empty.
\<close>

definition resolved :: "tfString \<Rightarrow> string \<Rightarrow> string \<Rightarrow> string" where
  "resolved configured envValue dflt =
     (let s = (case configured of
                 StringNull \<Rightarrow> envValue
               | StringUnknown \<Rightarrow> []
               | StringValue x \<Rightarrow> x)
      in if s = [] then dflt else s)"

section \<open>Example values\<close>

text \<open>
  A service created at second 1, the same service once completed, servers holding them
  under the identity \<open>u1\<close>, and requests on it. \<open>clockAt t\<close> is a call at time \<open>t\<close> in
  which \<open>time.Since\<close> reads the clock one nanosecond later and the UUID generator gives
  \<open>u2\<close>. The create requests carry the three required
  members, no member, a body that is not JSON, and \<open>maxSpoolUsage\<close> as a string.
  \<open>exampleParse\<close> stands for \<open>time.ParseDuration\<close> on the three strings it knows.
\<close>

definition svr0 :: Fakeserver where
  "svr0 = \<lparr>objects = Map.empty, debug = False, running = True\<rparr>"

definition s1 :: ServiceInfo where
  "s1 = \<lparr>ID = ''u1'', ServiceClassId = ''ENTERPRISE_250_STANDALONE'',
         DatacenterId = ''aks-germanywestcentral'', Name = ''ocs-prov-test'',
         State = ''PENDING'', MsgVpnName = ''test-vpn1'', EventBrokerVersion = ''1.0.0'',
         CustomRouterName = ''test-router1'', ClusterName = ''test-cluster1'',
         MaxSpoolUsage = 20, Created = 1000000000, Updated = 0,
         ClientUsername = ''client-user'', ClientPassword = ''client-passwd''\<rparr>"

definition svr1 :: Fakeserver where
  "svr1 = \<lparr>objects = [''u1'' \<mapsto> s1], debug = False, running = True\<rparr>"

definition svr1done :: Fakeserver where
  "svr1done = \<lparr>objects = [''u1'' \<mapsto> s1\<lparr>State := ''COMPLETED''\<rparr>], debug = False, running = True\<rparr>"

definition clockAt :: "time \<Rightarrow> world" where
  "clockAt t = \<lparr>newUUID = ''u2'', now = t, sinceClock = t + 1\<rparr>"

definition getU1 :: request where
  "getU1 = \<lparr>Method = ''GET'', Path = ''/api/v2/missionControl/eventBrokerServices/u1'',
            Body = None\<rparr>"

definition deleteU1 :: request where
  "deleteU1 = \<lparr>Method = ''DELETE'', Path = ''/api/v2/missionControl/eventBrokerServices/u1'',
            Body = None\<rparr>"

definition patchU1 :: request where
  "patchU1 = \<lparr>Method = ''PATCH'', Path = ''/api/v2/missionControl/eventBrokerServices/u1'',
            Body = Some (JObject [(''name'', JString ''renamed'')])\<rparr>"

definition createPath :: string where
  "createPath = ''/api/v2/missionControl/eventBrokerServices''"

definition createOk :: request where
  "createOk = \<lparr>Method = ''POST'', Path = createPath,
               Body = Some (JObject [(''name'', JString ''ocs-prov-test''),
                                     (''serviceClassId'', JString ''ENTERPRISE_250_STANDALONE''),
                                     (''datacenterId'', JString ''aks-germanywestcentral'')])\<rparr>"

definition createEmpty :: request where
  "createEmpty = \<lparr>Method = ''POST'', Path = createPath, Body = Some (JObject [])\<rparr>"

definition createNoJson :: request where
  "createNoJson = \<lparr>Method = ''POST'', Path = createPath, Body = None\<rparr>"

definition createBadSpool :: request where
  "createBadSpool = \<lparr>Method = ''POST'', Path = createPath,
               Body = Some (JObject [(''name'', JString ''ocs-prov-test''),
                                     (''serviceClassId'', JString ''ENTERPRISE_250_STANDALONE''),
                                     (''datacenterId'', JString ''aks-germanywestcentral''),
                                     (''maxSpoolUsage'', JString ''50'')])\<rparr>"

definition patchU2 :: request where
  "patchU2 = \<lparr>Method = ''PATCH'', Path = ''/api/v2/missionControl/eventBrokerServices/u2'',
            Body = Some (JObject [(''name'', JString ''renamed'')])\<rparr>"

definition getU2 :: request where
  "getU2 = \<lparr>Method = ''GET'', Path = ''/api/v2/missionControl/eventBrokerServices/u2'',
            Body = None\<rparr>"

definition exampleParse :: "string \<Rightarrow> duration option" where
  "exampleParse s =
     (if s = ''20s'' then Some 20000000000
      else if s = ''30m'' then Some 1800000000000
      else if s = ''5s'' then Some 5000000000
      else None)"

definition exampleConfig :: clusterManagerProviderModel where
  "exampleConfig = \<lparr>Host = StringValue ''https://api.solace.cloud'',
                    BearerToken = StringValue ''someBearerToken'',
                    PollingTimeoutDuration = StringNull,
                    PollingIntervalDuration = StringNull\<rparr>"

section \<open>Dispatch\<close>

lemma Seconds_gt_5: "5 < Seconds (Since c t) \<longleftrightarrow> 5000000000 < c - t"
  unfolding Seconds_def Since_def Sub_def Let_def maxDuration_def minDuration_def
  by (auto simp: field_simps)

lemma dispatch_found:
  assumes "addresses r ident" "objects svr ident = Some s" "Method r \<noteq> ''POST''"
  shows "handleBrokerServices svr w r =
           (if Method r = ''GET'' then handleGet svr w s ident
            else if Method r = ''PATCH'' then handlePatch svr w s ident (Body r)
            else if Method r = ''DELETE'' then handleDelete svr s ident
            else (http_Error StatusBadRequest, svr))"
  using assms by (simp add: handleBrokerServices_def parseRequest_def addresses_def Let_def)

lemma dispatch_missing:
  assumes "addresses r ident" "objects svr ident = None" "Method r \<noteq> ''POST''"
  shows "handleBrokerServices svr w r = (http_Error StatusNotFound, svr)"
  using assms by (simp add: handleBrokerServices_def parseRequest_def addresses_def Let_def)

lemma dispatch_create:
  assumes "isCreate r"
  shows "handleBrokerServices svr w r = handleCreate svr w (Body r)"
  using assms by (simp add: handleBrokerServices_def parseRequest_def isCreate_def Let_def)

section \<open>Reading a service\<close>

lemma snd_handleGet_pending:
  assumes "State s = ''PENDING''"
  shows "snd (handleGet svr w s ident) =
     svr\<lparr>objects := (objects svr)(ident \<mapsto>
        (if 5000000000 < sinceClock w - Created s
         then s\<lparr>Updated := now w, State := ''COMPLETED''\<rparr>
         else s\<lparr>Updated := now w\<rparr>))\<rparr>"
  using assms by (simp add: handleGet_def Let_def Seconds_gt_5)

lemma snd_handleGet_other:
  assumes "State s \<noteq> ''PENDING''"
  shows "snd (handleGet svr w s ident) = svr"
  using assms by (simp add: handleGet_def Let_def)

lemma creationState_handleGet:
  "creationState (fst (handleGet svr w s ident)) =
     Some (GString (if State s = ''PENDING'' \<and> 5000000000 < sinceClock w - Created s
                    then ''COMPLETED'' else State s))"
  by (simp add: handleGet_def Let_def creationState_def replyData_def meta_def Seconds_gt_5)

lemma statusCode_handleGet: "statusCode (fst (handleGet svr w s ident)) = Some 200"
  by (simp add: handleGet_def Let_def statusCode_def split: prod.splits)

lemma credential_handleGet:
  "serviceLoginCredential (fst (handleGet svr w s ident)) =
     Some (GMap [(''username'', GString (ClientUsername s)),
                 (''password'', GString (ClientPassword s))])"
  by (simp add: handleGet_def Let_def serviceLoginCredential_def replyData_def meta_def)

lemma objects_handleGet:
  "objects (snd (handleGet svr w s ident)) k =
     (if k = ident \<and> State s = ''PENDING''
      then Some (if 5000000000 < sinceClock w - Created s
                 then s\<lparr>Updated := now w, State := ''COMPLETED''\<rparr>
                 else s\<lparr>Updated := now w\<rparr>)
      else objects svr k)"
  by (cases "State s = ''PENDING''") (simp_all add: snd_handleGet_pending snd_handleGet_other)

lemma get_keeps_completed:
  assumes "Method r = ''GET''" and "objects svr k = Some s" and "State s = ''COMPLETED''"
  shows "objects (snd (handleBrokerServices svr w r)) k = Some s"
proof (cases "length (strings_Split (Path r)) = 6")
  case False
  then show ?thesis
    using assms by (simp add: handleBrokerServices_def parseRequest_def Let_def)
next
  case True
  define ident where "ident = strings_Split (Path r) ! 5"
  have a: "addresses r ident"
    using True by (simp add: addresses_def ident_def)
  have np: "Method r \<noteq> ''POST''" using assms(1) by simp
  show ?thesis
  proof (cases "objects svr ident")
    case None
    then show ?thesis using assms(2) by (simp add: dispatch_missing [OF a _ np])
  next
    case (Some s2)
    have "handleBrokerServices svr w r = handleGet svr w s2 ident"
      using assms(1) by (simp add: dispatch_found [OF a Some np])
    then show ?thesis
      using assms(2,3) Some by (auto simp: objects_handleGet)
  qed
qed

lemma snd_serve_Cons:
  "snd (serve svr ((w, r) # rest)) = snd (serve (snd (handleBrokerServices svr w r)) rest)"
  by (simp add: case_prod_beta)

lemma fst_serve_Cons:
  "fst (serve svr ((w, r) # rest)) =
     fst (handleBrokerServices svr w r) # fst (serve (snd (handleBrokerServices svr w r)) rest)"
  by (simp add: case_prod_beta)

lemma serve_gets_keep_completed:
  assumes "list_all (\<lambda>(w, r). Method r = ''GET'') rs"
    and "objects svr k = Some s" and "State s = ''COMPLETED''"
  shows "objects (snd (serve svr rs)) k = Some s"
  using assms
proof (induction rs arbitrary: svr)
  case Nil
  then show ?case by simp
next
  case (Cons a rs)
  obtain w r where a: "a = (w, r)" by (cases a)
  have m: "Method r = ''GET''" and rest: "list_all (\<lambda>(w, r). Method r = ''GET'') rs"
    using Cons.prems(1) a by simp_all
  have "objects (snd (handleBrokerServices svr w r)) k = Some s"
    using get_keeps_completed [OF m Cons.prems(2) Cons.prems(3)] .
  from Cons.IH [OF rest this Cons.prems(3)]
  show ?case by (simp only: a snd_serve_Cons)
qed

lemma addresses_getU1: "addresses getU1 ''u1''"
  by (simp add: addresses_def getU1_def)

text \<open>
  Claim C1. A \<open>GET\<close> on the identity of a stored service whose state is \<open>PENDING\<close> leaves
  it stored with the state \<open>COMPLETED\<close> if and only if more than five seconds
  (5000000000 nanoseconds) lie between its \<open>Created\<close> time, the reference time of
  \<open>handleGet\<close>, and the clock read by \<open>time.Since\<close>. The reply shows the stored state,
  and once the state is \<open>COMPLETED\<close> every \<open>GET\<close> on the identity that follows, after any
  number of further \<open>GET\<close> requests, replies \<open>COMPLETED\<close>.
\<close>

theorem get_pending_completes_iff:
  assumes "objects svr ident = Some s" and "State s = ''PENDING''"
    and "Method r = ''GET''" and "addresses r ident"
  shows "\<exists>s'. objects (snd (handleBrokerServices svr w r)) ident = Some s'
           \<and> (State s' = ''COMPLETED'' \<longleftrightarrow> 5000000000 < sinceClock w - Created s)
           \<and> creationState (fst (handleBrokerServices svr w r)) = Some (GString (State s'))
           \<and> (State s' = ''COMPLETED'' \<longrightarrow>
                (\<forall>rs w' r'. list_all (\<lambda>(w, r). Method r = ''GET'') rs
                     \<and> Method r' = ''GET'' \<and> addresses r' ident \<longrightarrow>
                   creationState
                     (fst (handleBrokerServices
                             (snd (serve (snd (handleBrokerServices svr w r)) rs)) w' r'))
                     = Some (GString ''COMPLETED'')))"
proof -
  have d: "handleBrokerServices svr w r = handleGet svr w s ident"
    using assms by (simp add: dispatch_found)
  define s' where "s' = (if 5000000000 < sinceClock w - Created s
                 then s\<lparr>Updated := now w, State := ''COMPLETED''\<rparr>
                 else s\<lparr>Updated := now w\<rparr>)"
  have st: "objects (snd (handleBrokerServices svr w r)) ident = Some s'"
    unfolding d s'_def using assms(2) by (simp add: objects_handleGet)
  have iff: "State s' = ''COMPLETED'' \<longleftrightarrow> 5000000000 < sinceClock w - Created s"
    using assms(2) by (simp add: s'_def)
  have rep: "creationState (fst (handleBrokerServices svr w r)) = Some (GString (State s'))"
    unfolding d using assms(2) by (simp add: creationState_handleGet s'_def)
  have later: "creationState
                 (fst (handleBrokerServices
                         (snd (serve (snd (handleBrokerServices svr w r)) rs)) w' r'))
                 = Some (GString ''COMPLETED'')"
    if c: "State s' = ''COMPLETED''" and g: "list_all (\<lambda>(w, r). Method r = ''GET'') rs"
      and m: "Method r' = ''GET''" and a: "addresses r' ident" for rs w' r'
  proof -
    have "objects (snd (serve (snd (handleBrokerServices svr w r)) rs)) ident = Some s'"
      using serve_gets_keep_completed [OF g st c] .
    then have "handleBrokerServices (snd (serve (snd (handleBrokerServices svr w r)) rs)) w' r'
                 = handleGet (snd (serve (snd (handleBrokerServices svr w r)) rs)) w' s' ident"
      using m a by (simp add: dispatch_found)
    then show ?thesis using c by (simp add: creationState_handleGet)
  qed
  show ?thesis
    using st iff rep later by blast
qed

theorem get_pending_completes_iff_witness:
  "objects svr1 ''u1'' = Some s1 \<and> State s1 = ''PENDING'' \<and> Method getU1 = ''GET''
   \<and> addresses getU1 ''u1''
   \<and> 5000000000 < sinceClock (clockAt 7000000000) - Created s1
   \<and> list_all (\<lambda>(w, r). Method r = ''GET'') [(clockAt 8000000000, getU1)]
   \<and> (\<exists>s'. objects (snd (handleBrokerServices svr1 (clockAt 7000000000) getU1)) ''u1'' = Some s'
          \<and> State s' = ''COMPLETED'')
   \<and> creationState
       (fst (handleBrokerServices
               (snd (serve (snd (handleBrokerServices svr1 (clockAt 7000000000) getU1))
                       [(clockAt 8000000000, getU1)]))
               (clockAt 9000000000) getU1))
       = Some (GString ''COMPLETED'')"
proof -
  have h1: "objects svr1 ''u1'' = Some s1" by (simp add: svr1_def)
  have h2: "State s1 = ''PENDING''" by (simp add: s1_def)
  have h3: "Method getU1 = ''GET''" by (simp add: getU1_def)
  have h4: "addresses getU1 ''u1''" by (rule addresses_getU1)
  have h5: "5000000000 < sinceClock (clockAt 7000000000) - Created s1"
    by (simp add: clockAt_def s1_def)
  have h6: "list_all (\<lambda>(w, r). Method r = ''GET'') [(clockAt 8000000000, getU1)]"
    by (simp add: getU1_def)
  from get_pending_completes_iff [OF h1 h2 h3 h4, of "clockAt 7000000000"]
  obtain s' where
    a: "objects (snd (handleBrokerServices svr1 (clockAt 7000000000) getU1)) ''u1'' = Some s'"
    and b: "State s' = ''COMPLETED'' \<longleftrightarrow> 5000000000 < sinceClock (clockAt 7000000000) - Created s1"
    and d: "State s' = ''COMPLETED'' \<longrightarrow>
              (\<forall>rs w' r'. list_all (\<lambda>(w, r). Method r = ''GET'') rs
                   \<and> Method r' = ''GET'' \<and> addresses r' ''u1'' \<longrightarrow>
                 creationState
                   (fst (handleBrokerServices
                           (snd (serve (snd (handleBrokerServices svr1 (clockAt 7000000000) getU1)) rs))
                           w' r'))
                   = Some (GString ''COMPLETED''))"
    by blast
  have c: "State s' = ''COMPLETED''" using b h5 by simp
  have e: "creationState
       (fst (handleBrokerServices
               (snd (serve (snd (handleBrokerServices svr1 (clockAt 7000000000) getU1))
                       [(clockAt 8000000000, getU1)]))
               (clockAt 9000000000) getU1))
       = Some (GString ''COMPLETED'')"
    using d c h6 h3 h4 by blast
  show ?thesis
    using h1 h2 h3 h4 h5 h6 a c e by blast
qed

text \<open>
  Claim C9. A \<open>GET\<close> on a stored service whose state is \<open>PENDING\<close> writes the record back
  with \<open>Updated\<close> set to the current time: with nothing else changed when no more than five
  seconds have passed since \<open>Created\<close>, and with the state \<open>COMPLETED\<close> as well when more
  have. A \<open>GET\<close> on a service whose state is \<open>COMPLETED\<close> leaves the server as it was.
\<close>

theorem get_writes_back_pending:
  assumes "objects svr ident = Some s" and "Method r = ''GET''" and "addresses r ident"
  shows "(State s = ''PENDING'' \<and> \<not> 5000000000 < sinceClock w - Created s \<longrightarrow>
            snd (handleBrokerServices svr w r) =
              svr\<lparr>objects := (objects svr)(ident \<mapsto> s\<lparr>Updated := now w\<rparr>)\<rparr>)
       \<and> (State s = ''PENDING'' \<and> 5000000000 < sinceClock w - Created s \<longrightarrow>
            snd (handleBrokerServices svr w r) =
              svr\<lparr>objects := (objects svr)(ident \<mapsto> s\<lparr>Updated := now w, State := ''COMPLETED''\<rparr>)\<rparr>)
       \<and> (State s = ''COMPLETED'' \<longrightarrow> snd (handleBrokerServices svr w r) = svr)"
proof -
  have d: "handleBrokerServices svr w r = handleGet svr w s ident"
    using assms by (simp add: dispatch_found)
  have "State s = ''COMPLETED'' \<Longrightarrow> State s \<noteq> ''PENDING''" by simp
  then show ?thesis
    unfolding d by (auto simp: snd_handleGet_pending snd_handleGet_other)
qed

theorem get_writes_back_pending_witness:
  "objects svr1 ''u1'' = Some s1 \<and> Method getU1 = ''GET'' \<and> addresses getU1 ''u1''
   \<and> State s1 = ''PENDING''
   \<and> \<not> 5000000000 < sinceClock (clockAt 2000000000) - Created s1
   \<and> snd (handleBrokerServices svr1 (clockAt 2000000000) getU1) =
       svr1\<lparr>objects := (objects svr1)(''u1'' \<mapsto> s1\<lparr>Updated := 2000000000\<rparr>)\<rparr>
   \<and> 5000000000 < sinceClock (clockAt 7000000000) - Created s1
   \<and> snd (handleBrokerServices svr1 (clockAt 7000000000) getU1) =
       svr1\<lparr>objects := (objects svr1)(''u1'' \<mapsto> s1\<lparr>Updated := 7000000000, State := ''COMPLETED''\<rparr>)\<rparr>
   \<and> objects svr1done ''u1'' = Some (s1\<lparr>State := ''COMPLETED''\<rparr>)
   \<and> State (s1\<lparr>State := ''COMPLETED''\<rparr>) = ''COMPLETED''
   \<and> snd (handleBrokerServices svr1done (clockAt 7000000000) getU1) = svr1done"
proof -
  have h1: "objects svr1 ''u1'' = Some s1" by (simp add: svr1_def)
  have h2: "Method getU1 = ''GET''" by (simp add: getU1_def)
  have h3: "State s1 = ''PENDING''" by (simp add: s1_def)
  have h4: "\<not> 5000000000 < sinceClock (clockAt 2000000000) - Created s1"
    by (simp add: s1_def clockAt_def)
  have h5: "5000000000 < sinceClock (clockAt 7000000000) - Created s1"
    by (simp add: s1_def clockAt_def)
  have h6: "objects svr1done ''u1'' = Some (s1\<lparr>State := ''COMPLETED''\<rparr>)"
    by (simp add: svr1done_def)
  have h7: "State (s1\<lparr>State := ''COMPLETED''\<rparr>) = ''COMPLETED''" by simp
  have n: "now (clockAt 2000000000) = 2000000000" "now (clockAt 7000000000) = 7000000000"
    by (simp_all add: clockAt_def)
  show ?thesis
    using get_writes_back_pending [OF h1 h2 addresses_getU1, of "clockAt 2000000000"]
      get_writes_back_pending [OF h1 h2 addresses_getU1, of "clockAt 7000000000"]
      get_writes_back_pending [OF h6 h2 addresses_getU1, of "clockAt 7000000000"]
      h1 h2 h3 h4 h5 h6 h7 addresses_getU1 n
    by simp
qed

lemma addresses_deleteU1: "addresses deleteU1 ''u1''"
  by (simp add: addresses_def deleteU1_def)

lemma addresses_patchU1: "addresses patchU1 ''u1''"
  by (simp add: addresses_def patchU1_def)

lemma http_Error_NotFound: "http_Error StatusNotFound = ErrorReply 404 ''Not Found''"
  by (simp add: http_Error_def StatusNotFound_def)

section \<open>Deleting a service\<close>

text \<open>
  Claim C7. A \<open>DELETE\<close> on an identity of the store, whatever the state of the service,
  replies 202 and removes the identity from the store, where nothing else changes. A
  \<open>DELETE\<close>, \<open>GET\<close> or \<open>PATCH\<close> on an identity that is not in the store replies 404
  \<open>Not Found\<close> and leaves the server as it was; so does the same \<open>DELETE\<close> when it is
  sent again.
\<close>

theorem delete_removes_or_not_found:
  assumes "addresses r ident"
  shows "(objects svr ident \<noteq> None \<and> Method r = ''DELETE'' \<longrightarrow>
            statusCode (fst (handleBrokerServices svr w r)) = Some 202
            \<and> snd (handleBrokerServices svr w r) = svr\<lparr>objects := (objects svr)(ident := None)\<rparr>)
       \<and> (objects svr ident = None \<and> Method r \<in> {''DELETE'', ''GET'', ''PATCH''} \<longrightarrow>
            handleBrokerServices svr w r = (ErrorReply 404 ''Not Found'', svr))
       \<and> (Method r = ''DELETE'' \<longrightarrow>
            (\<forall>w'. handleBrokerServices (snd (handleBrokerServices svr w r)) w' r
                    = (ErrorReply 404 ''Not Found'', snd (handleBrokerServices svr w r))))"
proof -
  have found: "handleBrokerServices svr w r = handleDelete svr s ident"
    if "objects svr ident = Some s" and "Method r = ''DELETE''" for s
    using that assms by (simp add: dispatch_found)
  have missing: "handleBrokerServices svr' w' r = (ErrorReply 404 ''Not Found'', svr')"
    if "objects svr' ident = None" and "Method r \<in> {''DELETE'', ''GET'', ''PATCH''}" for svr' w'
  proof -
    have "Method r \<noteq> ''POST''" using that(2) by auto
    then show ?thesis
      using that(1) assms by (simp add: dispatch_missing http_Error_NotFound)
  qed
  have gone: "objects (snd (handleBrokerServices svr w r)) ident = None" if "Method r = ''DELETE''"
  proof (cases "objects svr ident")
    case None
    then show ?thesis using missing [of svr w] that by simp
  next
    case (Some s)
    then show ?thesis using found [OF Some that] by (simp add: handleDelete_def)
  qed
  show ?thesis
  proof (intro conjI impI allI)
    assume a: "objects svr ident \<noteq> None \<and> Method r = ''DELETE''"
    then obtain s where s: "objects svr ident = Some s" by auto
    show "statusCode (fst (handleBrokerServices svr w r)) = Some 202"
      using found [OF s] a by (simp add: handleDelete_def statusCode_def)
    show "snd (handleBrokerServices svr w r) = svr\<lparr>objects := (objects svr)(ident := None)\<rparr>"
      using found [OF s] a by (simp add: handleDelete_def)
  next
    assume "objects svr ident = None \<and> Method r \<in> {''DELETE'', ''GET'', ''PATCH''}"
    then show "handleBrokerServices svr w r = (ErrorReply 404 ''Not Found'', svr)"
      using missing by blast
  next
    fix w'
    assume d: "Method r = ''DELETE''"
    show "handleBrokerServices (snd (handleBrokerServices svr w r)) w' r
            = (ErrorReply 404 ''Not Found'', snd (handleBrokerServices svr w r))"
      using missing [OF gone [OF d]] d by simp
  qed
qed

theorem delete_removes_or_not_found_witness:
  "addresses deleteU1 ''u1'' \<and> objects svr1 ''u1'' \<noteq> None \<and> Method deleteU1 = ''DELETE''
   \<and> statusCode (fst (handleBrokerServices svr1 (clockAt 2000000000) deleteU1)) = Some 202
   \<and> snd (handleBrokerServices svr1 (clockAt 2000000000) deleteU1)
       = svr1\<lparr>objects := (objects svr1)(''u1'' := None)\<rparr>
   \<and> fst (handleBrokerServices (snd (handleBrokerServices svr1 (clockAt 2000000000) deleteU1))
        (clockAt 3000000000) deleteU1)
      = ErrorReply 404 ''Not Found''
   \<and> addresses getU1 ''u1'' \<and> objects svr0 ''u1'' = None
   \<and> Method getU1 \<in> {''DELETE'', ''GET'', ''PATCH''}
   \<and> handleBrokerServices svr0 (clockAt 2000000000) getU1 = (ErrorReply 404 ''Not Found'', svr0)"
proof -
  have h1: "objects svr1 ''u1'' \<noteq> None" by (simp add: svr1_def)
  have h2: "Method deleteU1 = ''DELETE''" by (simp add: deleteU1_def)
  have h3: "objects svr0 ''u1'' = None" by (simp add: svr0_def)
  have h4: "Method getU1 \<in> {''DELETE'', ''GET'', ''PATCH''}" by (simp add: getU1_def)
  note d = delete_removes_or_not_found [OF addresses_deleteU1, of svr1 "clockAt 2000000000"]
  note g = delete_removes_or_not_found [OF addresses_getU1, of svr0 "clockAt 2000000000"]
  have a: "statusCode (fst (handleBrokerServices svr1 (clockAt 2000000000) deleteU1)) = Some 202"
    and b: "snd (handleBrokerServices svr1 (clockAt 2000000000) deleteU1)
             = svr1\<lparr>objects := (objects svr1)(''u1'' := None)\<rparr>"
    using d h1 h2 by blast+
  have "handleBrokerServices (snd (handleBrokerServices svr1 (clockAt 2000000000) deleteU1))
          (clockAt 3000000000) deleteU1
        = (ErrorReply 404 ''Not Found'', snd (handleBrokerServices svr1 (clockAt 2000000000) deleteU1))"
    using d h2 by blast
  then have c: "fst (handleBrokerServices (snd (handleBrokerServices svr1 (clockAt 2000000000) deleteU1))
        (clockAt 3000000000) deleteU1) = ErrorReply 404 ''Not Found''"
    by simp
  have e: "handleBrokerServices svr0 (clockAt 2000000000) getU1 = (ErrorReply 404 ''Not Found'', svr0)"
    using g h3 h4 by blast
  show ?thesis
    using addresses_deleteU1 addresses_getU1 h1 h2 h3 h4 a b c e by blast
qed

section \<open>Updating a service\<close>

text \<open>
  Claim C4. A \<open>PATCH\<close> on a stored service whose body \<open>json.Unmarshal\<close> decodes to an
  object with a string \<open>name\<close> replies 200 and leaves the service stored with the state
  \<open>PENDING\<close>, \<open>Updated\<close> set to the current time and the name of the body; every other
  field of the service and every other entry of the store is as before.
\<close>

theorem patch_frame:
  assumes "objects svr ident = Some s" and "Method r = ''PATCH''" and "addresses r ident"
    and "Unmarshal (Body r) = Some jObj" and "jObj ''name'' = Some (JString n)"
  shows "statusCode (fst (handleBrokerServices svr w r)) = Some 200
       \<and> (\<exists>s'. objects (snd (handleBrokerServices svr w r)) ident = Some s'
             \<and> State s' = ''PENDING'' \<and> Updated s' = now w \<and> Name s' = n
             \<and> ID s' = ID s \<and> ServiceClassId s' = ServiceClassId s
             \<and> DatacenterId s' = DatacenterId s \<and> MsgVpnName s' = MsgVpnName s
             \<and> EventBrokerVersion s' = EventBrokerVersion s
             \<and> CustomRouterName s' = CustomRouterName s \<and> ClusterName s' = ClusterName s
             \<and> MaxSpoolUsage s' = MaxSpoolUsage s \<and> Created s' = Created s
             \<and> ClientUsername s' = ClientUsername s \<and> ClientPassword s' = ClientPassword s)
       \<and> (\<forall>k. k \<noteq> ident \<longrightarrow> objects (snd (handleBrokerServices svr w r)) k = objects svr k)"
proof -
  have np: "Method r \<noteq> ''POST''" using assms(2) by simp
  have d: "handleBrokerServices svr w r = handlePatch svr w s ident (Body r)"
    using assms(2) by (simp add: dispatch_found [OF assms(3) assms(1) np])
  have a: "assertString (index jObj ''name'') = Some n"
    using assms(5) by (simp add: index_def assertString_def)
  have p: "handlePatch svr w s ident (Body r) =
             (fst (handlePatch svr w s ident (Body r)),
              svr\<lparr>objects := (objects svr)(ident \<mapsto> s\<lparr>Name := n, State := ''PENDING'', Updated := now w\<rparr>)\<rparr>)"
    by (simp add: handlePatch_def assms(4) a Let_def)
  have c: "statusCode (fst (handlePatch svr w s ident (Body r))) = Some 200"
    by (simp add: handlePatch_def assms(4) a Let_def statusCode_def)
  have o: "objects (snd (handleBrokerServices svr w r)) = (objects svr)(ident \<mapsto> s\<lparr>Name := n, State := ''PENDING'', Updated := now w\<rparr>)"
    unfolding d by (subst p) simp
  show ?thesis
    unfolding o using c d by simp
qed

theorem patch_frame_witness:
  "objects svr1done ''u1'' = Some (s1\<lparr>State := ''COMPLETED''\<rparr>) \<and> Method patchU1 = ''PATCH''
   \<and> addresses patchU1 ''u1''
   \<and> Unmarshal (Body patchU1) = Some [''name'' \<mapsto> JString ''renamed'']
   \<and> [''name'' \<mapsto> JString ''renamed''] ''name'' = Some (JString ''renamed'')
   \<and> statusCode (fst (handleBrokerServices svr1done (clockAt 9000000000) patchU1)) = Some 200
   \<and> (\<exists>s'. objects (snd (handleBrokerServices svr1done (clockAt 9000000000) patchU1)) ''u1'' = Some s'
         \<and> State s' = ''PENDING'' \<and> Updated s' = 9000000000 \<and> Name s' = ''renamed''
         \<and> ID s' = ''u1'' \<and> Created s' = 1000000000)"
proof -
  have h1: "objects svr1done ''u1'' = Some (s1\<lparr>State := ''COMPLETED''\<rparr>)" by (simp add: svr1done_def)
  have h2: "Method patchU1 = ''PATCH''" by (simp add: patchU1_def)
  have h4: "Unmarshal (Body patchU1) = Some [''name'' \<mapsto> JString ''renamed'']"
    by (simp add: patchU1_def Unmarshal_def maxNestingDepth_def)
  have h5: "[''name'' \<mapsto> JString ''renamed''] ''name'' = Some (JString ''renamed'')" by simp
  have n: "now (clockAt 9000000000) = 9000000000" by (simp add: clockAt_def)
  have f: "ID (s1\<lparr>State := ''COMPLETED''\<rparr>) = ''u1''" "Created (s1\<lparr>State := ''COMPLETED''\<rparr>) = 1000000000"
    by (simp_all add: s1_def)
  from patch_frame [OF h1 h2 addresses_patchU1 h4 h5, of "clockAt 9000000000"]
  obtain s' where "objects (snd (handleBrokerServices svr1done (clockAt 9000000000) patchU1)) ''u1'' = Some s'"
    and "State s' = ''PENDING''" and "Updated s' = 9000000000" and "Name s' = ''renamed''"
    and "ID s' = ''u1''" and "Created s' = 1000000000"
    and "statusCode (fst (handleBrokerServices svr1done (clockAt 9000000000) patchU1)) = Some 200"
    unfolding n f by blast
  then show ?thesis
    using h1 h2 h4 h5 addresses_patchU1 by blast
qed

section \<open>Creating a service\<close>

lemma isString_assert: "isString v \<Longrightarrow> \<exists>x. assertString v = Some x"
  by (cases v) (simp_all add: isString_def assertString_def)

lemma nilOrString_orDefault: "nilOrString v \<Longrightarrow> \<exists>x. orDefault v ds = Some x"
  by (cases v) (simp_all add: nilOrString_def orDefault_def assertString_def)

lemma nilOrNumber_orDefaultInt32: "nilOrNumber v \<Longrightarrow> \<exists>x. orDefaultInt32 v ds = Some x"
  by (cases v) (simp_all add: nilOrNumber_def orDefaultInt32_def assertFloat64_def)

lemma orDefault_simps:
  "orDefault JNull ds = Some ds"
  "orDefault (JString x) ds = Some (if x = [] then ds else x)"
  by (simp_all add: orDefault_def assertString_def)

lemma orDefaultInt32_simps:
  "orDefaultInt32 JNull ds = Some ds"
  "orDefaultInt32 (JNumber f) ds = Some (int32_of_float64 f)"
  by (simp_all add: orDefaultInt32_def assertFloat64_def)

lemma handleCreate_wellTyped:
  assumes "Unmarshal body = Some jObj" and "wellTyped jObj"
  shows "\<exists>s v. handleCreate svr w body =
                 (JsonReply 202 v, svr\<lparr>objects := (objects svr)(newUUID w \<mapsto> s)\<rparr>)
           \<and> ID s = newUUID w \<and> State s = ''PENDING'' \<and> Created s = now w \<and> Updated s = 0
           \<and> ClientUsername s = ''client-user'' \<and> ClientPassword s = ''client-passwd''
           \<and> assertString (index jObj ''name'') = Some (Name s)
           \<and> assertString (index jObj ''serviceClassId'') = Some (ServiceClassId s)
           \<and> assertString (index jObj ''datacenterId'') = Some (DatacenterId s)
           \<and> orDefault (index jObj ''clusterName'') ''test-cluster1'' = Some (ClusterName s)
           \<and> orDefault (index jObj ''msgVpnName'') ''test-vpn1'' = Some (MsgVpnName s)
           \<and> orDefault (index jObj ''eventBrokerVersion'') ''1.0.0'' = Some (EventBrokerVersion s)
           \<and> orDefault (index jObj ''customRouterName'') ''test-router1'' = Some (CustomRouterName s)
           \<and> orDefaultInt32 (index jObj ''maxSpoolUsage'') 20 = Some (MaxSpoolUsage s)
           \<and> field ''data'' v = Some (GMap [(''id'', GString (''O'' @ newUUID w)),
                                            (''resourceId'', GString (newUUID w)),
                                            (''name'', GString (Name s)),
                                            (''createdTime'', GTime (now w)),
                                            (''creationState'', GString ''PENDING'')])"
proof -
  obtain n where n: "assertString (index jObj ''name'') = Some n"
    using assms(2) isString_assert by (auto simp: wellTyped_def)
  obtain c where c: "assertString (index jObj ''serviceClassId'') = Some c"
    using assms(2) isString_assert by (auto simp: wellTyped_def)
  obtain d where d: "assertString (index jObj ''datacenterId'') = Some d"
    using assms(2) isString_assert by (auto simp: wellTyped_def)
  obtain cn where cn: "orDefault (index jObj ''clusterName'') ''test-cluster1'' = Some cn"
    using assms(2) nilOrString_orDefault by (auto simp: wellTyped_def)
  obtain mv where mv: "orDefault (index jObj ''msgVpnName'') ''test-vpn1'' = Some mv"
    using assms(2) nilOrString_orDefault by (auto simp: wellTyped_def)
  obtain ev where ev: "orDefault (index jObj ''eventBrokerVersion'') ''1.0.0'' = Some ev"
    using assms(2) nilOrString_orDefault by (auto simp: wellTyped_def)
  obtain cr where cr: "orDefault (index jObj ''customRouterName'') ''test-router1'' = Some cr"
    using assms(2) nilOrString_orDefault by (auto simp: wellTyped_def)
  obtain ms where ms: "orDefaultInt32 (index jObj ''maxSpoolUsage'') 20 = Some ms"
    using assms(2) nilOrNumber_orDefaultInt32 by (auto simp: wellTyped_def)
  define s where "s = \<lparr>ID = newUUID w, ServiceClassId = c, DatacenterId = d,
                     Name = n, State = ''PENDING'', MsgVpnName = mv,
                     EventBrokerVersion = ev, CustomRouterName = cr,
                     ClusterName = cn, MaxSpoolUsage = ms, Created = now w,
                     Updated = 0, ClientUsername = ''client-user'',
                     ClientPassword = ''client-passwd''\<rparr>"
  have "handleCreate svr w body =
          (fst (handleCreate svr w body), svr\<lparr>objects := (objects svr)(newUUID w \<mapsto> s)\<rparr>)"
    unfolding handleCreate_def Let_def s_def
    by (simp add: assms(1) n c d cn mv ev cr ms)
  moreover have "\<exists>v. fst (handleCreate svr w body) = JsonReply 202 v
          \<and> field ''data'' v = Some (GMap [(''id'', GString (''O'' @ newUUID w)),
                                            (''resourceId'', GString (newUUID w)),
                                            (''name'', GString n),
                                            (''createdTime'', GTime (now w)),
                                            (''creationState'', GString ''PENDING'')])"
    unfolding handleCreate_def Let_def
    by (simp add: assms(1) n c d cn mv ev cr ms meta_def)
  ultimately show ?thesis
    using n c d cn mv ev cr ms by (intro exI [of _ s]) (auto simp: s_def)
qed

lemma assert_isString: "assertString v = Some x \<Longrightarrow> isString v"
  by (cases v) (simp_all add: isString_def assertString_def)

lemma orDefault_nilOrString: "orDefault v ds = Some x \<Longrightarrow> nilOrString v"
  by (cases v) (simp_all add: nilOrString_def orDefault_def assertString_def)

lemma orDefaultInt32_nilOrNumber: "orDefaultInt32 v ds = Some x \<Longrightarrow> nilOrNumber v"
  by (cases v) (simp_all add: nilOrNumber_def orDefaultInt32_def assertFloat64_def)

lemma handleCreate_not_wellTyped:
  assumes "Unmarshal body = Some jObj" and "\<not> wellTyped jObj"
  shows "handleCreate svr w body = (Panicked, svr)"
  using assms(2)
  unfolding handleCreate_def Let_def wellTyped_def
  by (auto simp: assms(1) bind_eq_Some_conv split: option.splits
        dest: assert_isString orDefault_nilOrString orDefaultInt32_nilOrNumber)

lemma handleCreate_invalid:
  assumes "Unmarshal body = None"
  shows "handleCreate svr w body = (ErrorReply 500 ''Internal Server Error'', svr)"
  using assms by (simp add: handleCreate_def http_Error_def StatusInternalServerError_def)

lemma isCreate_examples:
  "isCreate createOk" "isCreate createEmpty" "isCreate createNoJson" "isCreate createBadSpool"
  by (simp_all add: isCreate_def createOk_def createEmpty_def createNoJson_def
        createBadSpool_def createPath_def)

lemma createEmpty_panics: "handleBrokerServices svr w createEmpty = (Panicked, svr)"
proof -
  have e: "Unmarshal (Body createEmpty) = Some Map.empty"
    by (simp add: createEmpty_def Unmarshal_def maxNestingDepth_def)
  have "\<not> wellTyped Map.empty"
    by (simp add: wellTyped_def index_def isString_def)
  then show ?thesis
    by (simp add: dispatch_create isCreate_examples handleCreate_not_wellTyped [OF e])
qed

lemma createBadSpool_panics: "handleBrokerServices svr w createBadSpool = (Panicked, svr)"
proof -
  define kvs where "kvs = [(''name'', JString ''ocs-prov-test''),
                      (''serviceClassId'', JString ''ENTERPRISE_250_STANDALONE''),
                      (''datacenterId'', JString ''aks-germanywestcentral''),
                      (''maxSpoolUsage'', JString ''50'')]"
  have e: "Unmarshal (Body createBadSpool) = Some (map_of (rev kvs))"
    by (simp add: createBadSpool_def Unmarshal_def maxNestingDepth_def kvs_def)
  have "index (map_of (rev kvs)) ''maxSpoolUsage'' = JString ''50''"
    by (simp add: kvs_def index_def)
  then have "\<not> wellTyped (map_of (rev kvs))"
    by (simp add: wellTyped_def nilOrNumber_def)
  then show ?thesis
    by (simp add: dispatch_create isCreate_examples handleCreate_not_wellTyped [OF e])
qed

lemma createNoJson_rejected:
  "handleBrokerServices svr w createNoJson = (ErrorReply 500 ''Internal Server Error'', svr)"
proof -
  have "Unmarshal (Body createNoJson) = None"
    by (simp add: createNoJson_def Unmarshal_def maxNestingDepth_def)
  then show ?thesis
    by (simp add: dispatch_create isCreate_examples handleCreate_invalid)
qed

text \<open>
  Claim C3. A create request whose body is not a JSON text gets the reply 500 and leaves the
  store as it was. A body that is a JSON object without the required members (here the
  empty object), or with a member of another type (here \<open>maxSpoolUsage\<close> as a string),
  makes \<open>handleCreate\<close> panic at the type assertion: the client gets no reply, and the
  store is as it was.
\<close>

theorem create_malformed_panics:
  "handleBrokerServices svr0 (clockAt 1000000000) createEmpty = (Panicked, svr0)
   \<and> handleBrokerServices svr0 (clockAt 1000000000) createBadSpool = (Panicked, svr0)
   \<and> handleBrokerServices svr0 (clockAt 1000000000) createNoJson
       = (ErrorReply 500 ''Internal Server Error'', svr0)"
proof (intro conjI)
  show "handleBrokerServices svr0 (clockAt 1000000000) createEmpty = (Panicked, svr0)"
    by (rule createEmpty_panics)
  show "handleBrokerServices svr0 (clockAt 1000000000) createBadSpool = (Panicked, svr0)"
    by (rule createBadSpool_panics)
  show "handleBrokerServices svr0 (clockAt 1000000000) createNoJson
       = (ErrorReply 500 ''Internal Server Error'', svr0)"
    by (rule createNoJson_rejected)
qed

text \<open>
  Claim C10 fails as it is stated: a body that is a JSON object with the three required
  members, without \<open>clusterName\<close>, and with \<open>maxSpoolUsage\<close> given as a string makes the
  handler panic, and no service is stored, with or without defaults.
\<close>

theorem create_defaults_counterexample:
  "isCreate createBadSpool
   \<and> Body createBadSpool =
       Some (JObject [(''name'', JString ''ocs-prov-test''),
                      (''serviceClassId'', JString ''ENTERPRISE_250_STANDALONE''),
                      (''datacenterId'', JString ''aks-germanywestcentral''),
                      (''maxSpoolUsage'', JString ''50'')])
   \<and> handleBrokerServices svr0 (clockAt 1000000000) createBadSpool = (Panicked, svr0)
   \<and> objects svr0 (newUUID (clockAt 1000000000)) = None"
proof -
  have "Body createBadSpool =
       Some (JObject [(''name'', JString ''ocs-prov-test''),
                      (''serviceClassId'', JString ''ENTERPRISE_250_STANDALONE''),
                      (''datacenterId'', JString ''aks-germanywestcentral''),
                      (''maxSpoolUsage'', JString ''50'')])"
    by (simp add: createBadSpool_def)
  moreover have "objects svr0 (newUUID (clockAt 1000000000)) = None"
    by (simp add: svr0_def)
  ultimately show ?thesis
    by (simp add: createBadSpool_panics isCreate_examples)
qed

text \<open>
  Claim C10, amended. For a create request whose body \<open>json.Unmarshal\<close> decodes to an
  object in which every member the handler reads has its expected type, the service is
  stored under the new identity, and each of \<open>clusterName\<close>, \<open>msgVpnName\<close>,
  \<open>eventBrokerVersion\<close> and \<open>customRouterName\<close> that is missing, \<open>null\<close> or the empty
  string is stored as \<open>test-cluster1\<close>, \<open>test-vpn1\<close>, \<open>1.0.0\<close> and \<open>test-router1\<close>; a
  \<open>maxSpoolUsage\<close> that is missing or \<open>null\<close> is stored as 20.
\<close>

theorem create_defaults:
  assumes "isCreate r" and "Unmarshal (Body r) = Some jObj" and "wellTyped jObj"
  shows "\<exists>s. objects (snd (handleBrokerServices svr w r)) (newUUID w) = Some s
           \<and> (jObj ''clusterName'' \<in> {None, Some JNull, Some (JString [])} \<longrightarrow>
                ClusterName s = ''test-cluster1'')
           \<and> (jObj ''msgVpnName'' \<in> {None, Some JNull, Some (JString [])} \<longrightarrow>
                MsgVpnName s = ''test-vpn1'')
           \<and> (jObj ''eventBrokerVersion'' \<in> {None, Some JNull, Some (JString [])} \<longrightarrow>
                EventBrokerVersion s = ''1.0.0'')
           \<and> (jObj ''customRouterName'' \<in> {None, Some JNull, Some (JString [])} \<longrightarrow>
                CustomRouterName s = ''test-router1'')
           \<and> (jObj ''maxSpoolUsage'' \<in> {None, Some JNull} \<longrightarrow> MaxSpoolUsage s = 20)"
proof -
  have dflt: "x = ds" if "jObj k \<in> {None, Some JNull, Some (JString [])}"
    and "orDefault (index jObj k) ds = Some x" for k ds x
    using that by (auto simp: index_def orDefault_simps)
  have dflt32: "x = ds" if "jObj k \<in> {None, Some JNull}"
    and "orDefaultInt32 (index jObj k) ds = Some x" for k ds x
    using that by (auto simp: index_def orDefaultInt32_simps)
  from handleCreate_wellTyped [OF assms(2,3), of svr w]
  obtain s v where c: "handleCreate svr w (Body r) =
                 (JsonReply 202 v, svr\<lparr>objects := (objects svr)(newUUID w \<mapsto> s)\<rparr>)"
    and cn: "orDefault (index jObj ''clusterName'') ''test-cluster1'' = Some (ClusterName s)"
    and mv: "orDefault (index jObj ''msgVpnName'') ''test-vpn1'' = Some (MsgVpnName s)"
    and ev: "orDefault (index jObj ''eventBrokerVersion'') ''1.0.0'' = Some (EventBrokerVersion s)"
    and cr: "orDefault (index jObj ''customRouterName'') ''test-router1'' = Some (CustomRouterName s)"
    and ms: "orDefaultInt32 (index jObj ''maxSpoolUsage'') 20 = Some (MaxSpoolUsage s)"
    by blast
  have "objects (snd (handleBrokerServices svr w r)) (newUUID w) = Some s"
    by (simp add: dispatch_create [OF assms(1)] c)
  then show ?thesis
    using dflt [OF _ cn] dflt [OF _ mv] dflt [OF _ ev] dflt [OF _ cr] dflt32 [OF _ ms]
    by (intro exI [of _ s]) blast
qed

theorem create_defaults_witness:
  "isCreate createOk
   \<and> Unmarshal (Body createOk) =
       Some (map_of (rev [(''name'', JString ''ocs-prov-test''),
                          (''serviceClassId'', JString ''ENTERPRISE_250_STANDALONE''),
                          (''datacenterId'', JString ''aks-germanywestcentral'')]))
   \<and> wellTyped (map_of (rev [(''name'', JString ''ocs-prov-test''),
                                     (''serviceClassId'', JString ''ENTERPRISE_250_STANDALONE''),
                                     (''datacenterId'', JString ''aks-germanywestcentral'')]))
   \<and> (\<exists>s. objects (snd (handleBrokerServices svr0 (clockAt 1000000000) createOk)) ''u2'' = Some s
         \<and> ClusterName s = ''test-cluster1'' \<and> MsgVpnName s = ''test-vpn1''
         \<and> EventBrokerVersion s = ''1.0.0'' \<and> CustomRouterName s = ''test-router1''
         \<and> MaxSpoolUsage s = 20)"
proof -
  define kvs where "kvs = [(''name'', JString ''ocs-prov-test''),
                                     (''serviceClassId'', JString ''ENTERPRISE_250_STANDALONE''),
                                     (''datacenterId'', JString ''aks-germanywestcentral'')]"
  have h1: "isCreate createOk" by (rule isCreate_examples)
  have h2: "Unmarshal (Body createOk) = Some (map_of (rev kvs))"
    by (simp add: createOk_def kvs_def Unmarshal_def maxNestingDepth_def)
  have h4: "wellTyped (map_of (rev kvs))"
    by (simp add: kvs_def wellTyped_def index_def isString_def nilOrString_def nilOrNumber_def)
  have a: "map_of (rev kvs) ''clusterName'' \<in> {None, Some JNull, Some (JString [])}"
    "map_of (rev kvs) ''msgVpnName'' \<in> {None, Some JNull, Some (JString [])}"
    "map_of (rev kvs) ''eventBrokerVersion'' \<in> {None, Some JNull, Some (JString [])}"
    "map_of (rev kvs) ''customRouterName'' \<in> {None, Some JNull, Some (JString [])}"
    "map_of (rev kvs) ''maxSpoolUsage'' \<in> {None, Some JNull}"
    by (simp_all add: kvs_def)
  have n: "newUUID (clockAt 1000000000) = ''u2''" by (simp add: clockAt_def)
  from create_defaults [OF h1 h2 h4, of svr0 "clockAt 1000000000"] a
  have "\<exists>s. objects (snd (handleBrokerServices svr0 (clockAt 1000000000) createOk)) ''u2'' = Some s
         \<and> ClusterName s = ''test-cluster1'' \<and> MsgVpnName s = ''test-vpn1''
         \<and> EventBrokerVersion s = ''1.0.0'' \<and> CustomRouterName s = ''test-router1''
         \<and> MaxSpoolUsage s = 20"
    unfolding n by blast
  then show ?thesis
    using h1 h2 h4 unfolding kvs_def by blast
qed


lemma objects_handleDelete:
  assumes "objects (snd (handleDelete svr s ident)) k = Some s'"
  shows "objects svr k = Some s'"
  using assms by (auto simp: handleDelete_def split: if_splits)



lemma addresses_getU2: "addresses getU2 ''u2''"
  by (simp add: addresses_def getU2_def)



lemma handlePatch_named:
  assumes "Unmarshal body = Some jObj" and "assertString (index jObj ''name'') = Some n"
  shows "snd (handlePatch svr w s ident body) =
           svr\<lparr>objects := (objects svr)(ident \<mapsto> s\<lparr>Name := n, State := ''PENDING'', Updated := now w\<rparr>)\<rparr>"
    and "creationState (fst (handlePatch svr w s ident body)) = Some (GString ''PENDING'')"
    and "statusCode (fst (handlePatch svr w s ident body)) = Some 200"
  using assms
  by (simp_all add: handlePatch_def Let_def creationState_def replyData_def statusCode_def meta_def)

lemma dispatch_not_create:
  assumes "\<not> isCreate r"
  shows "handleBrokerServices svr w r =
           (if length (strings_Split (Path r)) = 6 then
              (case objects svr (strings_Split (Path r) ! 5) of
                 None \<Rightarrow> (http_Error StatusNotFound, svr)
               | Some sInfo \<Rightarrow>
                   if Method r = ''GET'' then handleGet svr w sInfo (strings_Split (Path r) ! 5)
                   else if Method r = ''PATCH''
                   then handlePatch svr w sInfo (strings_Split (Path r) ! 5) (Body r)
                   else if Method r = ''DELETE''
                   then handleDelete svr sInfo (strings_Split (Path r) ! 5)
                   else (http_Error StatusBadRequest, svr))
            else (http_Error StatusBadRequest, svr))"
  using assms by (auto simp: handleBrokerServices_def parseRequest_def isCreate_def Let_def)

lemma credentials_handlePatch:
  assumes "objects (snd (handlePatch svr w s ident body)) k = Some s'"
  shows "(k = ident \<and> ClientUsername s' = ClientUsername s \<and> ClientPassword s' = ClientPassword s)
         \<or> objects svr k = Some s'"
  using assms
  by (auto simp: handlePatch_def Let_def http_Error_def split: option.splits if_splits)

lemma credentials_handleGet:
  assumes "objects (snd (handleGet svr w s ident)) k = Some s'"
  shows "(k = ident \<and> ClientUsername s' = ClientUsername s \<and> ClientPassword s' = ClientPassword s)
         \<or> objects svr k = Some s'"
  using assms by (auto simp: objects_handleGet split: if_splits)

lemma credentials_handleCreate:
  assumes "objects (snd (handleCreate svr w body)) k = Some s'"
  shows "(ClientUsername s' = ''client-user'' \<and> ClientPassword s' = ''client-passwd'')
         \<or> objects svr k = Some s'"
proof (cases "Unmarshal body")
  case None
  then show ?thesis using assms by (simp add: handleCreate_invalid)
next
  case (Some jObj)
  show ?thesis
  proof (cases "wellTyped jObj")
    case False
    then show ?thesis using assms by (simp add: handleCreate_not_wellTyped [OF Some])
  next
    case True
    from handleCreate_wellTyped [OF Some True, of svr w]
    obtain s v where "handleCreate svr w body =
                 (JsonReply 202 v, svr\<lparr>objects := (objects svr)(newUUID w \<mapsto> s)\<rparr>)"
      and "ClientUsername s = ''client-user''" "ClientPassword s = ''client-passwd''"
      by blast
    then show ?thesis using assms by (auto split: if_splits)
  qed
qed

lemma step_keeps_credentials:
  assumes "objects (snd (handleBrokerServices svr w r)) k = Some s'"
    and "\<And>s. objects svr k = Some s \<Longrightarrow>
           ClientUsername s = ''client-user'' \<and> ClientPassword s = ''client-passwd''"
  shows "ClientUsername s' = ''client-user'' \<and> ClientPassword s' = ''client-passwd''"
proof (cases "isCreate r")
  case True
  then have "objects (snd (handleCreate svr w (Body r))) k = Some s'"
    using assms(1) by (simp add: dispatch_create)
  from credentials_handleCreate [OF this] show ?thesis using assms(2) by blast
next
  case False
  note d = dispatch_not_create [OF False, of svr w]
  show ?thesis
  proof (cases "length (strings_Split (Path r)) = 6")
    case six: False
    then show ?thesis using assms d by simp
  next
    case six: True
    define ident where "ident = strings_Split (Path r) ! 5"
    show ?thesis
    proof (cases "objects svr ident")
      case None
      then show ?thesis using assms d six by (simp add: ident_def)
    next
      case (Some s2)
      have s2: "ClientUsername s2 = ''client-user'' \<and> ClientPassword s2 = ''client-passwd''"
        if "k = ident"
        using assms(2) Some that by blast
      consider (get) "Method r = ''GET''"
        | (patch) "Method r \<noteq> ''GET''" "Method r = ''PATCH''"
        | (delete) "Method r \<noteq> ''GET''" "Method r \<noteq> ''PATCH''" "Method r = ''DELETE''"
        | (other) "Method r \<noteq> ''GET''" "Method r \<noteq> ''PATCH''" "Method r \<noteq> ''DELETE''"
        by blast
      then show ?thesis
      proof cases
        case get
        then have "objects (snd (handleGet svr w s2 ident)) k = Some s'"
          using assms(1) d six Some by (simp add: ident_def)
        from credentials_handleGet [OF this] show ?thesis using s2 assms(2) by auto
      next
        case patch
        then have "objects (snd (handlePatch svr w s2 ident (Body r))) k = Some s'"
          using assms(1) d six Some by (simp add: ident_def)
        from credentials_handlePatch [OF this] show ?thesis using s2 assms(2) by auto
      next
        case delete
        then have "objects (snd (handleDelete svr s2 ident)) k = Some s'"
          using assms(1) d six Some by (simp add: ident_def)
        from objects_handleDelete [OF this] show ?thesis using assms(2) by blast
      next
        case other
        then have "objects svr k = Some s'"
          using assms(1) d six Some by (simp add: ident_def)
        then show ?thesis using assms(2) by blast
      qed
    qed
  qed
qed

lemma serve_keeps_credentials:
  assumes "objects (snd (serve svr rs)) k = Some s'"
    and "\<And>s. objects svr k = Some s \<Longrightarrow>
           ClientUsername s = ''client-user'' \<and> ClientPassword s = ''client-passwd''"
  shows "ClientUsername s' = ''client-user'' \<and> ClientPassword s' = ''client-passwd''"
  using assms
proof (induction rs arbitrary: svr)
  case Nil
  then show ?case by simp
next
  case (Cons a rs)
  obtain w r where a: "a = (w, r)" by (cases a)
  have 1: "objects (snd (serve (snd (handleBrokerServices svr w r)) rs)) k = Some s'"
    using Cons.prems(1) by (simp only: a snd_serve_Cons)
  have 2: "ClientUsername s = ''client-user'' \<and> ClientPassword s = ''client-passwd''"
    if "objects (snd (handleBrokerServices svr w r)) k = Some s" for s
    using step_keeps_credentials [OF that] Cons.prems(2) by blast
  from Cons.IH [OF 1 2] show ?case by blast
qed


lemma addresses_patchU2: "addresses patchU2 ''u2''"
  by (simp add: addresses_def patchU2_def)

section \<open>Credentials\<close>

text \<open>
  Claim C5 fails as it is stated: a service is created and read one second later; the
  reply to the \<open>GET\<close> shows the state \<open>PENDING\<close> and carries the credentials
  \<open>client-user\<close> and \<open>client-passwd\<close>. The reply to the create request carries none.
\<close>

theorem get_carries_credentials_counterexample:
  "map creationState (fst (serve svr0 [(clockAt 1000000000, createOk), (clockAt 2000000000, getU2)]))
     = [Some (GString ''PENDING''), Some (GString ''PENDING'')]
   \<and> map serviceLoginCredential
        (fst (serve svr0 [(clockAt 1000000000, createOk), (clockAt 2000000000, getU2)]))
     = [None, Some (GMap [(''username'', GString ''client-user''),
                          (''password'', GString ''client-passwd'')])]"
proof -
  define kvs where "kvs = [(''name'', JString ''ocs-prov-test''),
                                     (''serviceClassId'', JString ''ENTERPRISE_250_STANDALONE''),
                                     (''datacenterId'', JString ''aks-germanywestcentral'')]"
  have u: "Unmarshal (Body createOk) = Some (map_of (rev kvs))"
    by (simp add: createOk_def kvs_def Unmarshal_def maxNestingDepth_def)
  have t: "wellTyped (map_of (rev kvs))"
    by (simp add: kvs_def wellTyped_def index_def isString_def nilOrString_def nilOrNumber_def)
  have n: "newUUID (clockAt 1000000000) = ''u2''" "now (clockAt 1000000000) = 1000000000"
    by (simp_all add: clockAt_def)
  from handleCreate_wellTyped [OF u t, of svr0 "clockAt 1000000000"]
  obtain s v where c: "handleCreate svr0 (clockAt 1000000000) (Body createOk) =
                 (JsonReply 202 v, svr0\<lparr>objects := (objects svr0)(''u2'' \<mapsto> s)\<rparr>)"
    and s: "State s = ''PENDING''" "Created s = 1000000000"
      "ClientUsername s = ''client-user''" "ClientPassword s = ''client-passwd''"
    and v: "field ''data'' v = Some (GMap [(''id'', GString (''O'' @ ''u2'')),
                                            (''resourceId'', GString ''u2''),
                                            (''name'', GString (Name s)),
                                            (''createdTime'', GTime 1000000000),
                                            (''creationState'', GString ''PENDING'')])"
    unfolding n by blast
  define svr' where "svr' = svr0\<lparr>objects := (objects svr0)(''u2'' \<mapsto> s)\<rparr>"
  have d: "handleBrokerServices svr0 (clockAt 1000000000) createOk = (JsonReply 202 v, svr')"
    by (simp add: dispatch_create isCreate_examples c svr'_def)
  have st: "objects svr' ''u2'' = Some s" by (simp add: svr'_def)
  have m: "Method getU2 \<noteq> ''POST''" "Method getU2 = ''GET''" by (simp_all add: getU2_def)
  have g: "handleBrokerServices svr' (clockAt 2000000000) getU2
             = handleGet svr' (clockAt 2000000000) s ''u2''"
    by (simp add: dispatch_found [OF addresses_getU2 st m(1)] m(2))
  have r: "fst (serve svr0 [(clockAt 1000000000, createOk), (clockAt 2000000000, getU2)])
            = [JsonReply 202 v, fst (handleGet svr' (clockAt 2000000000) s ''u2'')]"
    by (simp only: fst_serve_Cons d g fst_conv snd_conv serve.simps(1))
  have e: "\<not> 5000000000 < sinceClock (clockAt 2000000000) - Created s"
    by (simp add: s clockAt_def)
  have c1: "creationState (JsonReply 202 v) = Some (GString ''PENDING'')"
    and c2: "serviceLoginCredential (JsonReply 202 v) = None"
    by (simp_all add: creationState_def serviceLoginCredential_def replyData_def v)
  have g1: "creationState (fst (handleGet svr' (clockAt 2000000000) s ''u2''))
              = Some (GString ''PENDING'')"
    by (simp add: creationState_handleGet s(1) e)
  have g2: "serviceLoginCredential (fst (handleGet svr' (clockAt 2000000000) s ''u2''))
              = Some (GMap [(''username'', GString ''client-user''),
                            (''password'', GString ''client-passwd'')])"
    by (simp add: credential_handleGet s)
  show ?thesis
    unfolding r by (simp only: list.map c1 c2 g1 g2 simp_thms)
qed

text \<open>
  Claim C5, amended. The reply to a \<open>GET\<close> on a stored service has the status 200 and
  carries the credentials with the user name and the password stored for the service,
  whatever its state. For a service that the backend has created, these are
  \<open>client-user\<close> and \<open>client-passwd\<close>: they are stored at creation, and they are what a
  \<open>GET\<close> on the service carries after any requests served in between, for as long as the
  service is stored, while its state is \<open>PENDING\<close> as well as once it is \<open>COMPLETED\<close>.
\<close>

theorem get_carries_credentials:
  "(objects svr ident = Some s \<and> Method g = ''GET'' \<and> addresses g ident \<longrightarrow>
      statusCode (fst (handleBrokerServices svr w g)) = Some 200
      \<and> serviceLoginCredential (fst (handleBrokerServices svr w g))
          = Some (GMap [(''username'', GString (ClientUsername s)),
                        (''password'', GString (ClientPassword s))]))
   \<and> (isCreate r \<and> Unmarshal (Body r) = Some jObj \<and> wellTyped jObj
        \<and> objects (snd (serve (snd (handleBrokerServices svr w r)) rs)) (newUUID w) = Some s'
        \<and> Method g = ''GET'' \<and> addresses g (newUUID w) \<longrightarrow>
      statusCode (fst (handleBrokerServices
                         (snd (serve (snd (handleBrokerServices svr w r)) rs)) w' g)) = Some 200
      \<and> serviceLoginCredential
           (fst (handleBrokerServices (snd (serve (snd (handleBrokerServices svr w r)) rs)) w' g))
          = Some (GMap [(''username'', GString ''client-user''),
                        (''password'', GString ''client-passwd'')]))"
proof -
  have get: "statusCode (fst (handleBrokerServices svr1 w1 g)) = Some 200
      \<and> serviceLoginCredential (fst (handleBrokerServices svr1 w1 g))
          = Some (GMap [(''username'', GString (ClientUsername s1)),
                        (''password'', GString (ClientPassword s1))])"
    if "objects svr1 k = Some s1" and "Method g = ''GET''" and "addresses g k"
    for svr1 w1 k s1
  proof -
    have np: "Method g \<noteq> ''POST''" using that(2) by simp
    have "handleBrokerServices svr1 w1 g = handleGet svr1 w1 s1 k"
      by (simp add: dispatch_found [OF that(3) that(1) np] that(2))
    then show ?thesis
      by (simp add: statusCode_handleGet credential_handleGet)
  qed
  have created: "ClientUsername s' = ''client-user'' \<and> ClientPassword s' = ''client-passwd''"
    if c: "isCreate r" and u: "Unmarshal (Body r) = Some jObj" and t: "wellTyped jObj"
      and st: "objects (snd (serve (snd (handleBrokerServices svr w r)) rs)) (newUUID w) = Some s'"
  proof -
    from handleCreate_wellTyped [OF u t, of svr w]
    obtain s0 v where h: "handleCreate svr w (Body r) =
                 (JsonReply 202 v, svr\<lparr>objects := (objects svr)(newUUID w \<mapsto> s0)\<rparr>)"
      and s0: "ClientUsername s0 = ''client-user''" "ClientPassword s0 = ''client-passwd''"
      by blast
    have "objects (snd (handleBrokerServices svr w r)) (newUUID w) = Some s0"
      by (simp add: dispatch_create [OF c] h)
    then have "ClientUsername x = ''client-user'' \<and> ClientPassword x = ''client-passwd''"
      if "objects (snd (handleBrokerServices svr w r)) (newUUID w) = Some x" for x
      using that s0 by simp
    from serve_keeps_credentials [OF st this] show ?thesis by blast
  qed
  show ?thesis
  proof (intro conjI impI)
    assume a: "objects svr ident = Some s \<and> Method g = ''GET'' \<and> addresses g ident"
    from a have f: "objects svr ident = Some s" "Method g = ''GET''" "addresses g ident"
      by simp_all
    from get [OF f, of w]
    show "statusCode (fst (handleBrokerServices svr w g)) = Some 200"
      and "serviceLoginCredential (fst (handleBrokerServices svr w g))
          = Some (GMap [(''username'', GString (ClientUsername s)),
                        (''password'', GString (ClientPassword s))])"
      by simp_all
  next
    assume a: "isCreate r \<and> Unmarshal (Body r) = Some jObj \<and> wellTyped jObj
        \<and> objects (snd (serve (snd (handleBrokerServices svr w r)) rs)) (newUUID w) = Some s'
        \<and> Method g = ''GET'' \<and> addresses g (newUUID w)"
    from a have f: "isCreate r" "Unmarshal (Body r) = Some jObj" "wellTyped jObj"
      "objects (snd (serve (snd (handleBrokerServices svr w r)) rs)) (newUUID w) = Some s'"
      "Method g = ''GET''" "addresses g (newUUID w)"
      by simp_all
    note cr = created [OF f(1,2,3,4)]
    from get [OF f(4,5,6), of w']
    show "statusCode (fst (handleBrokerServices
                         (snd (serve (snd (handleBrokerServices svr w r)) rs)) w' g)) = Some 200"
      and "serviceLoginCredential
           (fst (handleBrokerServices (snd (serve (snd (handleBrokerServices svr w r)) rs)) w' g))
          = Some (GMap [(''username'', GString ''client-user''),
                        (''password'', GString ''client-passwd'')])"
      using cr by simp_all
  qed
qed

theorem get_carries_credentials_witness:
  "objects svr1 ''u1'' = Some s1 \<and> Method getU1 = ''GET'' \<and> addresses getU1 ''u1''
   \<and> State s1 = ''PENDING''
   \<and> statusCode (fst (handleBrokerServices svr1 (clockAt 2000000000) getU1)) = Some 200
   \<and> serviceLoginCredential (fst (handleBrokerServices svr1 (clockAt 2000000000) getU1))
       = Some (GMap [(''username'', GString ''client-user''),
                     (''password'', GString ''client-passwd'')])
   \<and> isCreate createOk
   \<and> Unmarshal (Body createOk) =
       Some (map_of (rev [(''name'', JString ''ocs-prov-test''),
                          (''serviceClassId'', JString ''ENTERPRISE_250_STANDALONE''),
                          (''datacenterId'', JString ''aks-germanywestcentral'')]))
   \<and> wellTyped (map_of (rev [(''name'', JString ''ocs-prov-test''),
                              (''serviceClassId'', JString ''ENTERPRISE_250_STANDALONE''),
                              (''datacenterId'', JString ''aks-germanywestcentral'')]))
   \<and> (\<exists>s'. objects (snd (serve (snd (handleBrokerServices svr0 (clockAt 1000000000) createOk))
                            [(clockAt 3000000000, patchU2)])) ''u2'' = Some s'
          \<and> State s' = ''PENDING'' \<and> Name s' = ''renamed'')
   \<and> Method getU2 = ''GET'' \<and> addresses getU2 ''u2''
   \<and> serviceLoginCredential
        (fst (handleBrokerServices
                (snd (serve (snd (handleBrokerServices svr0 (clockAt 1000000000) createOk))
                        [(clockAt 3000000000, patchU2)]))
                (clockAt 4000000000) getU2))
       = Some (GMap [(''username'', GString ''client-user''),
                     (''password'', GString ''client-passwd'')])"
proof -
  define kvs where "kvs = [(''name'', JString ''ocs-prov-test''),
                                     (''serviceClassId'', JString ''ENTERPRISE_250_STANDALONE''),
                                     (''datacenterId'', JString ''aks-germanywestcentral'')]"
  define svr' where "svr' = snd (handleBrokerServices svr0 (clockAt 1000000000) createOk)"
  define svr'' where "svr'' = snd (serve svr' [(clockAt 3000000000, patchU2)])"
  have h1: "objects svr1 ''u1'' = Some s1" by (simp add: svr1_def)
  have h2: "Method getU1 = ''GET''" by (simp add: getU1_def)
  have h3: "State s1 = ''PENDING''" by (simp add: s1_def)
  have f: "ClientUsername s1 = ''client-user''" "ClientPassword s1 = ''client-passwd''"
    by (simp_all add: s1_def)
  have c1: "isCreate createOk" by (rule isCreate_examples)
  have c2: "Unmarshal (Body createOk) = Some (map_of (rev kvs))"
    by (simp add: createOk_def kvs_def Unmarshal_def maxNestingDepth_def)
  have c3: "wellTyped (map_of (rev kvs))"
    by (simp add: kvs_def wellTyped_def index_def isString_def nilOrString_def nilOrNumber_def)
  have n: "newUUID (clockAt 1000000000) = ''u2''" by (simp add: clockAt_def)
  have g2: "Method getU2 = ''GET''" by (simp add: getU2_def)
  from handleCreate_wellTyped [OF c2 c3, of svr0 "clockAt 1000000000"]
  obtain s v where "handleCreate svr0 (clockAt 1000000000) (Body createOk) =
                 (JsonReply 202 v, svr0\<lparr>objects := (objects svr0)(''u2'' \<mapsto> s)\<rparr>)"
    unfolding n by blast
  then have st: "objects svr' ''u2'' = Some s"
    by (simp add: svr'_def dispatch_create [OF c1])
  have pu: "Unmarshal (Body patchU2) = Some [''name'' \<mapsto> JString ''renamed'']"
    by (simp add: patchU2_def Unmarshal_def maxNestingDepth_def)
  have pa: "assertString (index [''name'' \<mapsto> JString ''renamed''] ''name'') = Some ''renamed''"
    by (simp add: index_def assertString_def)
  have pm: "Method patchU2 \<noteq> ''POST''" "Method patchU2 = ''PATCH''"
    by (simp_all add: patchU2_def)
  have "handleBrokerServices svr' (clockAt 3000000000) patchU2
          = handlePatch svr' (clockAt 3000000000) s ''u2'' (Body patchU2)"
    by (simp add: dispatch_found [OF addresses_patchU2 st pm(1)] pm(2))
  then have "svr'' = snd (handlePatch svr' (clockAt 3000000000) s ''u2'' (Body patchU2))"
    unfolding svr''_def by (simp only: snd_serve_Cons serve.simps(1) snd_conv)
  then have "objects svr'' ''u2''
               = Some (s\<lparr>Name := ''renamed'', State := ''PENDING'',
                          Updated := now (clockAt 3000000000)\<rparr>)"
    by (simp add: handlePatch_named(1) [OF pu pa])
  then obtain s' where s': "objects svr'' ''u2'' = Some s'" "State s' = ''PENDING''"
    "Name s' = ''renamed''"
    by simp
  note a = get_carries_credentials [where svr = svr1 and ident = "''u1''" and s = s1
      and g = getU1 and w = "clockAt 2000000000", THEN conjunct1, unfolded f]
  note b = get_carries_credentials [where g = getU2 and r = createOk
      and jObj = "map_of (rev kvs)" and svr = svr0 and w = "clockAt 1000000000"
      and rs = "[(clockAt 3000000000, patchU2)]" and s' = s' and w' = "clockAt 4000000000",
      THEN conjunct2, unfolded n, folded svr'_def, folded svr''_def]
  have ra: "statusCode (fst (handleBrokerServices svr1 (clockAt 2000000000) getU1)) = Some 200
      \<and> serviceLoginCredential (fst (handleBrokerServices svr1 (clockAt 2000000000) getU1))
          = Some (GMap [(''username'', GString ''client-user''),
                        (''password'', GString ''client-passwd'')])"
    by (rule a [THEN mp]) (intro conjI h1 h2 addresses_getU1)
  have rb: "statusCode (fst (handleBrokerServices svr'' (clockAt 4000000000) getU2)) = Some 200
      \<and> serviceLoginCredential (fst (handleBrokerServices svr'' (clockAt 4000000000) getU2))
          = Some (GMap [(''username'', GString ''client-user''),
                        (''password'', GString ''client-passwd'')])"
    by (rule b [THEN mp]) (intro conjI c1 c2 c3 s'(1) g2 addresses_getU2)
  show ?thesis
    using h1 h2 h3 addresses_getU1 ra c1 c2 c3 s' g2 addresses_getU2 rb
    unfolding kvs_def svr'_def svr''_def by blast
qed

section \<open>The time of completion\<close>

text \<open>
  Claim C2 fails as it is stated: a service created at second 1 and completed is updated
  at second 100 and read at second 101. The reply to the \<open>PATCH\<close> shows \<open>PENDING\<close>, and
  the reply to the \<open>GET\<close>, one second after the update, shows \<open>COMPLETED\<close>.
\<close>

theorem pending_until_threshold_counterexample:
  "objects svr1done ''u1'' = Some (s1\<lparr>State := ''COMPLETED''\<rparr>)
   \<and> Created (s1\<lparr>State := ''COMPLETED''\<rparr>) = 1000000000
   \<and> now (clockAt 100000000000) = 100000000000
   \<and> sinceClock (clockAt 101000000000) = 101000000001
   \<and> map creationState
        (fst (serve svr1done [(clockAt 100000000000, patchU1), (clockAt 101000000000, getU1)]))
     = [Some (GString ''PENDING''), Some (GString ''COMPLETED'')]"
proof -
  define s where "s = s1\<lparr>State := ''COMPLETED''\<rparr>"
  define s' where "s' = s\<lparr>Name := ''renamed'', State := ''PENDING'', Updated := now (clockAt 100000000000)\<rparr>"
  define svr' where "svr' = svr1done\<lparr>objects := (objects svr1done)(''u1'' \<mapsto> s')\<rparr>"
  have h1: "objects svr1done ''u1'' = Some s" by (simp add: svr1done_def s_def)
  have u: "Unmarshal (Body patchU1) = Some [''name'' \<mapsto> JString ''renamed'']"
    by (simp add: patchU1_def Unmarshal_def maxNestingDepth_def)
  have a: "assertString (index [''name'' \<mapsto> JString ''renamed''] ''name'') = Some ''renamed''"
    by (simp add: index_def assertString_def)
  have mp: "Method patchU1 \<noteq> ''POST''" "Method patchU1 = ''PATCH''" by (simp_all add: patchU1_def)
  have mg: "Method getU1 \<noteq> ''POST''" "Method getU1 = ''GET''" by (simp_all add: getU1_def)
  have p: "handleBrokerServices svr1done (clockAt 100000000000) patchU1
             = handlePatch svr1done (clockAt 100000000000) s ''u1'' (Body patchU1)"
    by (simp add: dispatch_found [OF addresses_patchU1 h1 mp(1)] mp(2))
  have p2: "snd (handleBrokerServices svr1done (clockAt 100000000000) patchU1) = svr'"
    unfolding p handlePatch_named(1) [OF u a] svr'_def s'_def ..
  have p1: "creationState (fst (handleBrokerServices svr1done (clockAt 100000000000) patchU1))
              = Some (GString ''PENDING'')"
    unfolding p by (rule handlePatch_named(2) [OF u a])
  have st: "objects svr' ''u1'' = Some s'" by (simp add: svr'_def)
  have g: "handleBrokerServices svr' (clockAt 101000000000) getU1
             = handleGet svr' (clockAt 101000000000) s' ''u1''"
    by (simp add: dispatch_found [OF addresses_getU1 st mg(1)] mg(2))
  have e: "State s' = ''PENDING''" "5000000000 < sinceClock (clockAt 101000000000) - Created s'"
    by (simp_all add: s'_def s_def s1_def clockAt_def)
  have g1: "creationState (fst (handleBrokerServices svr' (clockAt 101000000000) getU1))
              = Some (GString ''COMPLETED'')"
    unfolding g by (simp add: creationState_handleGet e)
  have r: "map creationState
        (fst (serve svr1done [(clockAt 100000000000, patchU1), (clockAt 101000000000, getU1)]))
     = [Some (GString ''PENDING''), Some (GString ''COMPLETED'')]"
    by (simp only: fst_serve_Cons p2 serve.simps(1) fst_conv list.map p1 g1)
  show ?thesis
    using h1 r by (simp add: s_def s1_def clockAt_def)
qed

text \<open>
  Claim C2, amended. A service is stored with the state \<open>PENDING\<close> by a create request,
  with the current time as \<open>Created\<close>, and by a \<open>PATCH\<close>, which leaves \<open>Created\<close> as it
  is. A \<open>GET\<close> on a service whose state is \<open>PENDING\<close> leaves it \<open>PENDING\<close> as long as no
  more than five seconds have passed since \<open>Created\<close>, the time of the creation, and
  makes it \<open>COMPLETED\<close> otherwise; the time of the last update plays no part.
\<close>

theorem pending_until_threshold:
  "(isCreate r \<and> Unmarshal (Body r) = Some jObj \<and> wellTyped jObj \<longrightarrow>
      (\<exists>s'. objects (snd (handleBrokerServices svr w r)) (newUUID w) = Some s'
          \<and> State s' = ''PENDING'' \<and> Created s' = now w))
   \<and> (objects svr ident = Some s \<and> Method r = ''PATCH'' \<and> addresses r ident
        \<and> Unmarshal (Body r) = Some jObj \<and> isString (index jObj ''name'') \<longrightarrow>
      (\<exists>s'. objects (snd (handleBrokerServices svr w r)) ident = Some s'
          \<and> State s' = ''PENDING'' \<and> Created s' = Created s))
   \<and> (objects svr ident = Some s \<and> State s = ''PENDING'' \<and> Method r = ''GET''
        \<and> addresses r ident \<longrightarrow>
      (\<exists>s'. objects (snd (handleBrokerServices svr w r)) ident = Some s'
          \<and> Created s' = Created s
          \<and> State s' = (if 5000000000 < sinceClock w - Created s
                         then ''COMPLETED'' else ''PENDING'')
          \<and> creationState (fst (handleBrokerServices svr w r)) = Some (GString (State s'))))"
proof (intro conjI impI)
  assume a: "isCreate r \<and> Unmarshal (Body r) = Some jObj \<and> wellTyped jObj"
  then have c: "isCreate r" and u: "Unmarshal (Body r) = Some jObj" and t: "wellTyped jObj"
    by simp_all
  from handleCreate_wellTyped [OF u t, of svr w]
  obtain s0 v where "handleCreate svr w (Body r) =
                 (JsonReply 202 v, svr\<lparr>objects := (objects svr)(newUUID w \<mapsto> s0)\<rparr>)"
    and "State s0 = ''PENDING''" "Created s0 = now w"
    by blast
  then show "\<exists>s'. objects (snd (handleBrokerServices svr w r)) (newUUID w) = Some s'
          \<and> State s' = ''PENDING'' \<and> Created s' = now w"
    by (simp add: dispatch_create [OF c])
next
  assume a: "objects svr ident = Some s \<and> Method r = ''PATCH'' \<and> addresses r ident
        \<and> Unmarshal (Body r) = Some jObj \<and> isString (index jObj ''name'')"
  then obtain n where n: "assertString (index jObj ''name'') = Some n"
    using isString_assert by blast
  have np: "Method r \<noteq> ''POST''" using a by simp
  from a have f: "objects svr ident = Some s" "addresses r ident" "Method r = ''PATCH''"
    by simp_all
  have "handleBrokerServices svr w r = handlePatch svr w s ident (Body r)"
    by (simp add: dispatch_found [OF f(2) f(1) np] f(3))
  then show "\<exists>s'. objects (snd (handleBrokerServices svr w r)) ident = Some s'
          \<and> State s' = ''PENDING'' \<and> Created s' = Created s"
    using a by (simp add: handlePatch_named(1) [OF _ n])
next
  assume a: "objects svr ident = Some s \<and> State s = ''PENDING'' \<and> Method r = ''GET''
        \<and> addresses r ident"
  have np: "Method r \<noteq> ''POST''" using a by simp
  from a have f: "objects svr ident = Some s" "addresses r ident" "Method r = ''GET''"
    by simp_all
  have "handleBrokerServices svr w r = handleGet svr w s ident"
    by (simp add: dispatch_found [OF f(2) f(1) np] f(3))
  then show "\<exists>s'. objects (snd (handleBrokerServices svr w r)) ident = Some s'
          \<and> Created s' = Created s
          \<and> State s' = (if 5000000000 < sinceClock w - Created s
                         then ''COMPLETED'' else ''PENDING'')
          \<and> creationState (fst (handleBrokerServices svr w r)) = Some (GString (State s'))"
    using a by (simp add: objects_handleGet creationState_handleGet)
qed

theorem pending_until_threshold_witness:
  "isCreate createOk
   \<and> wellTyped (map_of (rev [(''name'', JString ''ocs-prov-test''),
                              (''serviceClassId'', JString ''ENTERPRISE_250_STANDALONE''),
                              (''datacenterId'', JString ''aks-germanywestcentral'')]))
   \<and> (\<exists>s'. objects (snd (handleBrokerServices svr0 (clockAt 1000000000) createOk)) ''u2'' = Some s'
          \<and> State s' = ''PENDING'' \<and> Created s' = 1000000000)
   \<and> objects svr1done ''u1'' = Some (s1\<lparr>State := ''COMPLETED''\<rparr>)
   \<and> Method patchU1 = ''PATCH'' \<and> addresses patchU1 ''u1''
   \<and> Unmarshal (Body patchU1) = Some [''name'' \<mapsto> JString ''renamed'']
   \<and> isString (index [''name'' \<mapsto> JString ''renamed''] ''name'')
   \<and> (\<exists>s'. objects (snd (handleBrokerServices svr1done (clockAt 100000000000) patchU1)) ''u1''
             = Some s'
          \<and> State s' = ''PENDING'' \<and> Created s' = 1000000000)
   \<and> objects svr1 ''u1'' = Some s1 \<and> State s1 = ''PENDING'' \<and> Method getU1 = ''GET''
   \<and> addresses getU1 ''u1''
   \<and> creationState (fst (handleBrokerServices svr1 (clockAt 2000000000) getU1))
       = Some (GString ''PENDING'')
   \<and> creationState (fst (handleBrokerServices svr1 (clockAt 7000000000) getU1))
       = Some (GString ''COMPLETED'')"
proof -
  define kvs where "kvs = [(''name'', JString ''ocs-prov-test''),
                                     (''serviceClassId'', JString ''ENTERPRISE_250_STANDALONE''),
                                     (''datacenterId'', JString ''aks-germanywestcentral'')]"
  have c1: "isCreate createOk" by (rule isCreate_examples)
  have c2: "Unmarshal (Body createOk) = Some (map_of (rev kvs))"
    by (simp add: createOk_def kvs_def Unmarshal_def maxNestingDepth_def)
  have c3: "wellTyped (map_of (rev kvs))"
    by (simp add: kvs_def wellTyped_def index_def isString_def nilOrString_def nilOrNumber_def)
  have n: "newUUID (clockAt 1000000000) = ''u2''" "now (clockAt 1000000000) = 1000000000"
    by (simp_all add: clockAt_def)
  have p1: "objects svr1done ''u1'' = Some (s1\<lparr>State := ''COMPLETED''\<rparr>)"
    by (simp add: svr1done_def)
  have p2: "Method patchU1 = ''PATCH''" by (simp add: patchU1_def)
  have p3: "Unmarshal (Body patchU1) = Some [''name'' \<mapsto> JString ''renamed'']"
    by (simp add: patchU1_def Unmarshal_def maxNestingDepth_def)
  have p4: "isString (index [''name'' \<mapsto> JString ''renamed''] ''name'')"
    by (simp add: index_def isString_def)
  have p5: "Created (s1\<lparr>State := ''COMPLETED''\<rparr>) = 1000000000" by (simp add: s1_def)
  have g1: "objects svr1 ''u1'' = Some s1" by (simp add: svr1_def)
  have g2: "State s1 = ''PENDING''" by (simp add: s1_def)
  have g3: "Method getU1 = ''GET''" by (simp add: getU1_def)
  have g4: "\<not> 5000000000 < sinceClock (clockAt 2000000000) - Created s1"
    "5000000000 < sinceClock (clockAt 7000000000) - Created s1"
    by (simp_all add: clockAt_def s1_def)
  have a: "\<exists>s'. objects (snd (handleBrokerServices svr0 (clockAt 1000000000) createOk)) ''u2'' = Some s'
          \<and> State s' = ''PENDING'' \<and> Created s' = 1000000000"
    using pending_until_threshold [of createOk "map_of (rev kvs)" svr0 "clockAt 1000000000"]
      c1 c2 c3 unfolding n by blast
  have b: "\<exists>s'. objects (snd (handleBrokerServices svr1done (clockAt 100000000000) patchU1)) ''u1''
             = Some s'
          \<and> State s' = ''PENDING'' \<and> Created s' = 1000000000"
    using pending_until_threshold [of patchU1 "[''name'' \<mapsto> JString ''renamed'']" svr1done
        "clockAt 100000000000" "''u1''" "s1\<lparr>State := ''COMPLETED''\<rparr>"]
      p1 p2 p3 p4 addresses_patchU1 unfolding p5 by blast
  have c: "creationState (fst (handleBrokerServices svr1 (clockAt 2000000000) getU1))
       = Some (GString ''PENDING'')"
    using pending_until_threshold [of getU1 Map.empty svr1 "clockAt 2000000000" "''u1''" s1]
      g1 g2 g3 g4(1) addresses_getU1 by auto
  have d: "creationState (fst (handleBrokerServices svr1 (clockAt 7000000000) getU1))
       = Some (GString ''COMPLETED'')"
    using pending_until_threshold [of getU1 Map.empty svr1 "clockAt 7000000000" "''u1''" s1]
      g1 g2 g3 g4(2) addresses_getU1 by auto
  show ?thesis
    using c1 c3 a p1 p2 addresses_patchU1 p3 p4 b g1 g2 g3 addresses_getU1 c d
    unfolding kvs_def by blast
qed

section \<open>Configuring the provider\<close>

lemma resolved_eq:
  "resolved c e dflt =
     (let s = (if \<not> IsNull c then ValueString c else e) in if s = [] then dflt else s)"
  by (cases c) (simp_all add: resolved_def IsNull_def ValueString_def)

lemma HasError_append: "HasError (xs @ ys) \<longleftrightarrow> HasError xs \<or> HasError ys"
  by (simp add: HasError_def)

lemma HasError_simps: "HasError [] = False" "HasError [AttributeError p m] = True"
  "HasError [Error m] = True"
  by (simp_all add: HasError_def)

lemma HasError_if: "HasError (if b then [d] else []) \<longleftrightarrow> b \<and> isError d"
  by (simp add: HasError_def)

lemma Configure_cases:
  fixes config env P
  defines "i \<equiv> resolved (PollingIntervalDuration config) (Getenv env ''POLLING_INTERVAL_DURATION'') ''20s''"
    and "t \<equiv> resolved (PollingTimeoutDuration config) (Getenv env ''POLLING_TIMEOUT_DURATION'') ''30m''"
    and "host \<equiv> (if \<not> IsNull (Host config) then ValueString (Host config)
                  else Getenv env ''MISSIONCONTROL_HOST'')"
    and "bearerToken \<equiv> (if \<not> IsNull (BearerToken config) then ValueString (BearerToken config)
                  else Getenv env ''MISSIONCONTROL_TOKEN'')"
  assumes "Configure P N env diags config = (ds, data)"
  shows "(data = None \<and> HasError ds \<and>
            (HasError diags \<or> IsUnknown (Host config) \<or> IsUnknown (BearerToken config)
             \<or> host = [] \<or> bearerToken = [] \<or> P i = None \<or> P t = None \<or> N host = None))
       \<or> (\<not> HasError diags \<and> \<not> IsUnknown (Host config) \<and> \<not> IsUnknown (BearerToken config)
           \<and> host \<noteq> [] \<and> bearerToken \<noteq> []
           \<and> (\<exists>di dt c. P i = Some di \<and> P t = Some dt \<and> N host = Some c
                 \<and> data = Some \<lparr>Client_data = c, BearerToken_data = bearerToken,
                                 PollingIntervalDuration_data = di,
                                 PollingTimeoutDuration_data = dt\<rparr>))"
proof -
  define diags1 where "diags1 = diags
              @ (if IsUnknown (Host config)
                 then [AttributeError ''host'' ''Unknown HashiCups API Host''] else [])
              @ (if IsUnknown (BearerToken config)
                 then [AttributeError ''password'' ''Unknown MissionControl API Token''] else [])"
  define diags2 where "diags2 = diags1
                   @ (if host = []
                      then [AttributeError ''host'' ''Missing MissionControl API Host''] else [])
                   @ (if bearerToken = []
                      then [AttributeError ''bearerToken''
                              ''Missing MissionControl API PasTokensword'']
                      else [])
                   @ (if P i = None
                      then [AttributeError ''polling_intervall_duration''
                              ''Invalid polling intervall duration'']
                      else [])
                   @ (if P t = None
                      then [AttributeError ''polling_timeout_duration''
                              ''Invalid polling timeout duration'']
                      else [])"
  have e1: "HasError diags1 \<longleftrightarrow>
              HasError diags \<or> IsUnknown (Host config) \<or> IsUnknown (BearerToken config)"
    unfolding diags1_def HasError_append HasError_if by simp
  have e2: "HasError diags2 \<longleftrightarrow>
              HasError diags1 \<or> host = [] \<or> bearerToken = [] \<or> P i = None \<or> P t = None"
    unfolding diags2_def HasError_append HasError_if by simp
  have c: "Configure P N env diags config =
             (if HasError diags then (diags, None)
              else if HasError diags1 then (diags1, None)
              else if HasError diags2 then (diags2, None)
              else (case N host of
                      None \<Rightarrow> (diags2 @ [Error ''Unable to Create MissionControl API Client''], None)
                    | Some client \<Rightarrow>
                        (diags2,
                         Some \<lparr>Client_data = client, BearerToken_data = bearerToken,
                               PollingIntervalDuration_data = (case P i of None \<Rightarrow> 0 | Some d \<Rightarrow> d),
                               PollingTimeoutDuration_data = (case P t of None \<Rightarrow> 0 | Some d \<Rightarrow> d)\<rparr>)))"
    unfolding Configure_def Let_def diags1_def diags2_def i_def t_def host_def bearerToken_def
      resolved_eq Let_def
    by (rule refl)
  show ?thesis
  proof (cases "HasError diags2 \<or> N host = None")
    case True
    have "HasError diags \<or> IsUnknown (Host config) \<or> IsUnknown (BearerToken config)
             \<or> host = [] \<or> bearerToken = [] \<or> P i = None \<or> P t = None \<or> N host = None"
      using True by (auto simp: e1 e2)
    moreover have "data = None \<and> HasError ds"
    proof (cases "HasError diags")
      case True
      then show ?thesis using assms(5) by (simp add: c)
    next
      case nd: False
      show ?thesis
      proof (cases "HasError diags1")
        case True
        then show ?thesis using assms(5) nd by (auto simp: c)
      next
        case n1: False
        show ?thesis
        proof (cases "HasError diags2")
          case True
          then show ?thesis using assms(5) nd n1 by (auto simp: c)
        next
          case n2: False
          then have "N host = None" using True by simp
          then show ?thesis
            using assms(5) nd n1 n2 by (auto simp: c HasError_append HasError_simps)
        qed
      qed
    qed
    ultimately show ?thesis by blast
  next
    case False
    then have n2: "\<not> HasError diags2" and "N host \<noteq> None" by simp_all
    then obtain cl where cl: "N host = Some cl" by auto
    from n2 have f: "\<not> HasError diags" "\<not> IsUnknown (Host config)"
      "\<not> IsUnknown (BearerToken config)" "host \<noteq> []" "bearerToken \<noteq> []"
      "P i \<noteq> None" "P t \<noteq> None"
      by (simp_all add: e2 e1)
    then obtain di dt where p: "P i = Some di" "P t = Some dt" by auto
    have n1: "\<not> HasError diags1" using f by (simp add: e1)
    have "data = Some \<lparr>Client_data = cl, BearerToken_data = bearerToken,
                                 PollingIntervalDuration_data = di,
                                 PollingTimeoutDuration_data = dt\<rparr>"
      using assms(5) f(1) n1 n2 by (simp add: c cl p)
    then show ?thesis using f p cl by blast
  qed
qed

lemma resolved_cases:
  "v \<noteq> [] \<Longrightarrow> resolved (StringValue v) e dflt = v"
  "e \<noteq> [] \<Longrightarrow> resolved StringNull e dflt = e"
  "resolved StringNull [] dflt = dflt"
  "resolved (StringValue []) e dflt = dflt"
  by (simp_all add: resolved_def)

text \<open>
  Claim C8. Let \<open>i\<close> and \<open>t\<close> be the polling interval and timeout strings resolved from
  the configuration, the environment variables \<open>POLLING_INTERVAL_DURATION\<close> and
  \<open>POLLING_TIMEOUT_DURATION\<close>, and the defaults \<open>20s\<close> and \<open>30m\<close>. If one of them does not
  parse as a duration, \<open>Configure\<close> sets no provider data and reports an error; whenever it
  sets provider data, the two durations are those parsed from \<open>i\<close> and \<open>t\<close>; and it does
  set provider data when there is no earlier error, host and token are configured and not
  empty, both strings parse and the client can be created. The resolved string is the
  configured value when that is not null and not empty, the environment variable when the
  configuration is null and the variable is not empty, and the default when both are
  absent or empty (also for an empty configured value, whatever the variable).
\<close>

theorem configure_polling:
  assumes "Configure P N env diags config = (ds, data)"
    and "i = resolved (PollingIntervalDuration config) (Getenv env ''POLLING_INTERVAL_DURATION'') ''20s''"
    and "t = resolved (PollingTimeoutDuration config) (Getenv env ''POLLING_TIMEOUT_DURATION'') ''30m''"
  shows "(P i = None \<or> P t = None \<longrightarrow> data = None \<and> HasError ds)
       \<and> (\<forall>d. data = Some d \<longrightarrow>
              P i = Some (PollingIntervalDuration_data d)
              \<and> P t = Some (PollingTimeoutDuration_data d))
       \<and> (\<not> HasError diags \<and> Host config = StringValue h \<and> h \<noteq> []
            \<and> BearerToken config = StringValue b \<and> b \<noteq> []
            \<and> P i \<noteq> None \<and> P t \<noteq> None \<and> N h \<noteq> None \<longrightarrow> data \<noteq> None)
       \<and> (\<forall>v e dflt. v \<noteq> [] \<longrightarrow> resolved (StringValue v) e dflt = v)
       \<and> (\<forall>e dflt. e \<noteq> [] \<longrightarrow> resolved StringNull e dflt = e)
       \<and> (\<forall>dflt. resolved StringNull [] dflt = dflt)
       \<and> (\<forall>e dflt. resolved (StringValue []) e dflt = dflt)"
proof -
  define host where "host = (if \<not> IsNull (Host config) then ValueString (Host config)
                  else Getenv env ''MISSIONCONTROL_HOST'')"
  define bearerToken where "bearerToken = (if \<not> IsNull (BearerToken config)
                  then ValueString (BearerToken config)
                  else Getenv env ''MISSIONCONTROL_TOKEN'')"
  note c = Configure_cases [OF assms(1), folded assms(2,3) host_def bearerToken_def]
  have 1: "P i = None \<or> P t = None \<longrightarrow> data = None \<and> HasError ds"
    using c by - (elim disjE conjE exE, simp_all)
  have 2: "\<forall>d. data = Some d \<longrightarrow>
              P i = Some (PollingIntervalDuration_data d)
              \<and> P t = Some (PollingTimeoutDuration_data d)"
    using c by - (elim disjE conjE exE, simp_all)
  have 3: "data \<noteq> None"
    if "\<not> HasError diags" and "Host config = StringValue h" and "h \<noteq> []"
      and "BearerToken config = StringValue b" and "b \<noteq> []"
      and "P i \<noteq> None" and "P t \<noteq> None" and "N h \<noteq> None"
  proof -
    have "host = h" "bearerToken = b"
      using that by (simp_all add: host_def bearerToken_def IsNull_def ValueString_def)
    moreover have "\<not> IsUnknown (Host config)" "\<not> IsUnknown (BearerToken config)"
      using that by (simp_all add: IsUnknown_def)
    ultimately have "\<not> (HasError diags \<or> IsUnknown (Host config) \<or> IsUnknown (BearerToken config)
             \<or> host = [] \<or> bearerToken = [] \<or> P i = None \<or> P t = None \<or> N host = None)"
      using that by simp
    then show ?thesis
      using c by - (elim disjE conjE exE, simp_all)
  qed
  show ?thesis
  proof (intro conjI)
    show "P i = None \<or> P t = None \<longrightarrow> data = None \<and> HasError ds" by (rule 1)
    show "\<forall>d. data = Some d \<longrightarrow>
              P i = Some (PollingIntervalDuration_data d)
              \<and> P t = Some (PollingTimeoutDuration_data d)" by (rule 2)
    show "\<not> HasError diags \<and> Host config = StringValue h \<and> h \<noteq> []
            \<and> BearerToken config = StringValue b \<and> b \<noteq> []
            \<and> P i \<noteq> None \<and> P t \<noteq> None \<and> N h \<noteq> None \<longrightarrow> data \<noteq> None"
      using 3 by (intro impI) (elim conjE)
  qed (simp_all add: resolved_cases)
qed

theorem configure_polling_witness:
  "resolved (PollingIntervalDuration exampleConfig)
     (Getenv Map.empty ''POLLING_INTERVAL_DURATION'') ''20s'' = ''20s''
   \<and> resolved (PollingTimeoutDuration exampleConfig)
     (Getenv Map.empty ''POLLING_TIMEOUT_DURATION'') ''30m'' = ''30m''
   \<and> \<not> HasError [] \<and> Host exampleConfig = StringValue ''https://api.solace.cloud''
   \<and> BearerToken exampleConfig = StringValue ''someBearerToken''
   \<and> (\<exists>d. snd (Configure exampleParse Some Map.empty [] exampleConfig) = Some d
         \<and> PollingIntervalDuration_data d = 20000000000
         \<and> PollingTimeoutDuration_data d = 1800000000000)
   \<and> resolved (PollingIntervalDuration (exampleConfig\<lparr>PollingIntervalDuration := StringValue ''abc''\<rparr>))
       (Getenv [''POLLING_INTERVAL_DURATION'' \<mapsto> ''5s''] ''POLLING_INTERVAL_DURATION'') ''20s''
       = ''abc''
   \<and> exampleParse ''abc'' = None
   \<and> snd (Configure exampleParse Some [''POLLING_INTERVAL_DURATION'' \<mapsto> ''5s''] []
             (exampleConfig\<lparr>PollingIntervalDuration := StringValue ''abc''\<rparr>)) = None
   \<and> HasError (fst (Configure exampleParse Some [''POLLING_INTERVAL_DURATION'' \<mapsto> ''5s''] []
             (exampleConfig\<lparr>PollingIntervalDuration := StringValue ''abc''\<rparr>)))"
proof -
  define env :: "string \<rightharpoonup> string" where "env = [''POLLING_INTERVAL_DURATION'' \<mapsto> ''5s'']"
  define bad where "bad = exampleConfig\<lparr>PollingIntervalDuration := StringValue ''abc''\<rparr>"
  have i: "''20s'' = resolved (PollingIntervalDuration exampleConfig)
     (Getenv Map.empty ''POLLING_INTERVAL_DURATION'') ''20s''"
    and t: "''30m'' = resolved (PollingTimeoutDuration exampleConfig)
     (Getenv Map.empty ''POLLING_TIMEOUT_DURATION'') ''30m''"
    by (simp_all add: exampleConfig_def Getenv_def resolved_def)
  have i': "''abc'' = resolved (PollingIntervalDuration bad)
       (Getenv env ''POLLING_INTERVAL_DURATION'') ''20s''"
    and t': "''30m'' = resolved (PollingTimeoutDuration bad)
       (Getenv env ''POLLING_TIMEOUT_DURATION'') ''30m''"
    by (simp_all add: bad_def env_def exampleConfig_def Getenv_def resolved_def)
  have e: "\<not> HasError []" by (simp add: HasError_def)
  have h: "Host exampleConfig = StringValue ''https://api.solace.cloud''"
    "BearerToken exampleConfig = StringValue ''someBearerToken''"
    by (simp_all add: exampleConfig_def)
  have p: "exampleParse ''20s'' = Some 20000000000" "exampleParse ''30m'' = Some 1800000000000"
    "exampleParse ''abc'' = None"
    by (simp_all add: exampleParse_def)
  note good = configure_polling [OF prod.collapse [symmetric] i t,
      of exampleParse Some "[]" "''https://api.solace.cloud''" "''someBearerToken''"]
  note fails = configure_polling [OF prod.collapse [symmetric] i' t', of exampleParse Some "[]"]
  have "\<not> HasError [] \<and> Host exampleConfig = StringValue ''https://api.solace.cloud''
          \<and> ''https://api.solace.cloud'' \<noteq> []
          \<and> BearerToken exampleConfig = StringValue ''someBearerToken''
          \<and> ''someBearerToken'' \<noteq> []
          \<and> exampleParse ''20s'' \<noteq> None \<and> exampleParse ''30m'' \<noteq> None
          \<and> Some ''https://api.solace.cloud'' \<noteq> None"
    by (simp add: e h p)
  with good [THEN conjunct2, THEN conjunct2, THEN conjunct1]
  have "snd (Configure exampleParse Some Map.empty [] exampleConfig) \<noteq> None"
    by (rule mp)
  then obtain d where d: "snd (Configure exampleParse Some Map.empty [] exampleConfig) = Some d"
    by blast
  have "exampleParse ''20s'' = Some (PollingIntervalDuration_data d)
        \<and> exampleParse ''30m'' = Some (PollingTimeoutDuration_data d)"
    using good [THEN conjunct2, THEN conjunct1, rule_format, OF d] .
  then have v: "PollingIntervalDuration_data d = 20000000000"
    "PollingTimeoutDuration_data d = 1800000000000"
    using p by simp_all
  have "exampleParse ''abc'' = None \<or> exampleParse ''30m'' = None"
    by (simp add: p)
  with fails [THEN conjunct1]
  have f: "snd (Configure exampleParse Some env [] bad) = None
           \<and> HasError (fst (Configure exampleParse Some env [] bad))"
    by (rule mp)
  have x: "\<exists>d. snd (Configure exampleParse Some Map.empty [] exampleConfig) = Some d
         \<and> PollingIntervalDuration_data d = 20000000000
         \<and> PollingTimeoutDuration_data d = 1800000000000"
    using d v by blast
  show ?thesis
    unfolding env_def [symmetric] bad_def [symmetric]
    by (intro conjI i [symmetric] t [symmetric] i' [symmetric] e h x p(3)
          f [THEN conjunct1] f [THEN conjunct2])
qed

end
